theory Spec2Isabelle
  imports Complex_Main
begin

section \<open>Data model (src/types.ts and the constants module)\<close>

text \<open>
  JavaScript numbers are modelled as mathematical reals (\<open>Math.cos\<close>, \<open>Math.sin\<close>,
  \<open>Math.PI\<close> and \<open>Math.hypot\<close> as \<open>cos\<close>, \<open>sin\<close>, \<open>pi\<close> and the root of the sum
  of squares); rounding of IEEE doubles is not modelled. The photo counter
  \<open>activePhotoIndex\<close> only ever holds integers and is an \<open>int\<close>.
\<close>

datatype AppMode = TREE | SCATTER | FOCUS

datatype ParticleType = PARTICLE | PHOTO | DUST

record State =
  mode :: AppMode
  handX :: real
  handY :: real
  isPinching :: bool
  isFist :: bool
  isOpen :: bool
  activePhotoIndex :: int
  loading :: bool
  uiHidden :: bool

record Vector3 =
  vx :: real
  vy :: real
  vz :: real

record Euler =
  ex :: real
  ey :: real
  ez :: real

record Quaternion =
  qx :: real
  qy :: real
  qz :: real
  qw :: real

text \<open>
  The part of a \<open>THREE.Object3D\<close> that \<open>Experience.update\<close> reads and writes. The
  fields \<open>rotation\<close> and \<open>quaternion\<close> are two views of one orientation that the
  library keeps in step.
\<close>

record Mesh =
  position :: Vector3
  rotation :: Euler
  quaternion :: Quaternion
  scale :: Vector3

record ParticleData =
  mesh :: Mesh
  type :: ParticleType
  targetPosition :: Vector3
  targetRotation :: Euler
  targetScale :: Vector3
  velocity :: Vector3
  rotationSpeed :: Vector3

record NormalizedLandmark =
  lx :: real
  ly :: real
  lz :: real

definition PARTICLE_COUNT :: nat where
  "PARTICLE_COUNT = 1500"

definition DUST_COUNT :: nat where
  "DUST_COUNT = 2500"

definition PINCH :: real where
  "PINCH = 0.05"

definition FIST :: real where
  "FIST = 0.25"

definition OPEN :: real where
  "OPEN = 0.4"

section \<open>Gesture classification and mode transitions (src/App.tsx, processFrame)\<close>

definition hypot3 :: "real \<Rightarrow> real \<Rightarrow> real \<Rightarrow> real" where
  \<comment> \<open>\<open>Math.hypot(a, b, c)\<close>\<close>
  "hypot3 a b c = sqrt (a * a + b * b + c * c)"

definition pinchDist :: "NormalizedLandmark list \<Rightarrow> real" where
  "pinchDist landmarks =
     (let thumb = landmarks ! 4; index = landmarks ! 8
      in hypot3 (lx thumb - lx index) (ly thumb - ly index) (lz thumb - lz index))"

definition avgDist :: "NormalizedLandmark list \<Rightarrow> real" where
  "avgDist landmarks =
     (let wrist = landmarks ! 0;
          fingers = [landmarks ! 8, landmarks ! 12, landmarks ! 16, landmarks ! 20]
      in foldl (\<lambda>acc f. acc + hypot3 (lx f - lx wrist) (ly f - ly wrist) (lz f - lz wrist))
           0 fingers / 4)"

definition nextState :: "real \<Rightarrow> real \<Rightarrow> real \<Rightarrow> real \<Rightarrow> State \<Rightarrow> State" where
  \<comment> \<open>the updater passed to \<open>setState\<close>, lines 67 to 89\<close>
  "nextState hx hy pd ad prev =
     (let nextMode =
            (if pd < PINCH then (if mode prev \<noteq> FOCUS then FOCUS else mode prev)
             else if ad < FIST then TREE
             else if ad > OPEN then SCATTER
             else mode prev);
          nextPhotoIdx =
            (if pd < PINCH \<and> mode prev \<noteq> FOCUS then activePhotoIndex prev + 1
             else activePhotoIndex prev)
      in prev\<lparr>handX := hx, handY := hy, mode := nextMode, activePhotoIndex := nextPhotoIdx\<rparr>)"

datatype error = TypeError

definition processFrame ::
  "bool \<Rightarrow> NormalizedLandmark list list option \<Rightarrow> State \<Rightarrow> error + State" where
  \<comment> \<open>One run of \<open>processFrame\<close>. \<open>ready\<close> is the guard of line 45, \<open>results\<close> the
      \<open>landmarks\<close> field of the detector's answer (\<open>None\<close> when it is undefined). Reading
      a coordinate of a landmark that the hand does not have throws.\<close>
  "processFrame ready results prev =
     (if \<not> ready then Inr prev
      else case results of
        None \<Rightarrow> Inr prev
      | Some [] \<Rightarrow> Inr prev
      | Some (landmarks # _) \<Rightarrow>
          if length landmarks < 21 then Inl TypeError
          else
            let center = landmarks ! 9;
                hx = (lx center - 0.5) * 2;
                hy = (ly center - 0.5) * 2
            in Inr (nextState hx hy (pinchDist landmarks) (avgDist landmarks) prev))"

section \<open>Operations of the rendering library used by the engine\<close>

text \<open>
  \<open>Quaternion.setFromEuler\<close> and \<open>Quaternion.slerp\<close> belong to the rendering library and
  are not part of the repository; they are parameters of the model. \<open>slerp\<close> acts on the
  linked pair (\<open>rotation\<close>, \<open>quaternion\<close>) of an object, since the library refreshes the
  Euler view when it changes the quaternion.
\<close>

record Three =
  setFromEuler :: "Euler \<Rightarrow> Quaternion"
  slerp :: "Euler \<times> Quaternion \<Rightarrow> Quaternion \<Rightarrow> real \<Rightarrow> Euler \<times> Quaternion"

definition lerp :: "Vector3 \<Rightarrow> Vector3 \<Rightarrow> real \<Rightarrow> Vector3" where
  \<comment> \<open>Modelled from the spec: \<open>Vector3.lerp\<close> is library code outside src/; section 4.3
      describes it as closing the fraction \<open>alpha\<close> of the remaining distance on each
      component, which is the library's \<open>this.x += (v.x - this.x) * alpha\<close>.\<close>
  "lerp a v alpha =
     \<lparr>vx = vx a + (vx v - vx a) * alpha,
      vy = vy a + (vy v - vy a) * alpha,
      vz = vz a + (vz v - vz a) * alpha\<rparr>"

definition MathUtils_lerp :: "real \<Rightarrow> real \<Rightarrow> real \<Rightarrow> real" where
  \<comment> \<open>\<open>THREE.MathUtils.lerp(a, b, t)\<close>, the library's linear interpolation\<close>
  "MathUtils_lerp a b t = (1 - t) * a + t * b"

definition vset :: "real \<Rightarrow> real \<Rightarrow> real \<Rightarrow> Vector3" where
  \<comment> \<open>\<open>Vector3.set(x, y, z)\<close>\<close>
  "vset a b c = \<lparr>vx = a, vy = b, vz = c\<rparr>"

definition eset :: "real \<Rightarrow> real \<Rightarrow> real \<Rightarrow> Euler" where
  \<comment> \<open>\<open>Euler.set(x, y, z)\<close>\<close>
  "eset a b c = \<lparr>ex = a, ey = b, ez = c\<rparr>"

definition addRotationX :: "Three \<Rightarrow> Mesh \<Rightarrow> real \<Rightarrow> Mesh" where
  \<comment> \<open>\<open>mesh.rotation.x += d\<close>; the change callback recomputes the quaternion\<close>
  "addRotationX L m d =
     (let e = (rotation m)\<lparr>ex := ex (rotation m) + d\<rparr>
      in m\<lparr>rotation := e, quaternion := setFromEuler L e\<rparr>)"

definition addRotationY :: "Three \<Rightarrow> Mesh \<Rightarrow> real \<Rightarrow> Mesh" where
  \<comment> \<open>\<open>mesh.rotation.y += d\<close>\<close>
  "addRotationY L m d =
     (let e = (rotation m)\<lparr>ey := ey (rotation m) + d\<rparr>
      in m\<lparr>rotation := e, quaternion := setFromEuler L e\<rparr>)"

definition quaternion_slerp :: "Three \<Rightarrow> Mesh \<Rightarrow> Quaternion \<Rightarrow> real \<Rightarrow> Mesh" where
  \<comment> \<open>\<open>mesh.quaternion.slerp(qb, t)\<close>\<close>
  "quaternion_slerp L m qb t =
     (let r = slerp L (rotation m, quaternion m) qb t
      in m\<lparr>rotation := fst r, quaternion := snd r\<rparr>)"

section \<open>The particle engine (Experience.update)\<close>

text \<open>
  A particle is identified by its index in \<open>particles\<close>: the array \<open>photos\<close> of line 223
  holds references to particle objects and is modelled as the list of their indices, so
  that \<open>p === activePhoto\<close> compares indices and \<open>photos.indexOf(p)\<close> searches for one.
\<close>

record Experience =
  mainGroup_rotation :: Euler
  particles :: "ParticleData list"

definition photos :: "ParticleData list \<Rightarrow> nat list" where
  "photos ps = filter (\<lambda>j. type (ps ! j) = PHOTO) [0..<length ps]"

definition js_rem :: "int \<Rightarrow> int \<Rightarrow> int" where
  \<comment> \<open>the operator \<open>%\<close> on integers with a non-zero divisor: the sign of the dividend\<close>
  "js_rem a b = sgn a * (\<bar>a\<bar> mod \<bar>b\<bar>)"

definition activePhoto :: "State \<Rightarrow> nat list \<Rightarrow> nat option" where
  \<comment> \<open>\<open>photos[state.activePhotoIndex % photos.length]\<close>; with no photo the index is NaN,
      with a negative remainder it is negative, and the read gives \<open>undefined\<close>\<close>
  "activePhoto state ph =
     (if length ph = 0 then None
      else
        let r = js_rem (activePhotoIndex state) (int (length ph))
        in if r < 0 then None else Some (ph ! nat r))"

fun indexOf :: "nat list \<Rightarrow> nat \<Rightarrow> int" where
  "indexOf [] a = - 1"
| "indexOf (b # bs) a =
     (if b = a then 0 else (let k = indexOf bs a in if k < 0 then - 1 else k + 1))"

definition policy ::
  "Three \<Rightarrow> State \<Rightarrow> real \<Rightarrow> nat list \<Rightarrow> nat option \<Rightarrow> nat \<Rightarrow> ParticleData \<Rightarrow> ParticleData" where
  \<comment> \<open>lines 233 to 287, for a particle that is not DUST\<close>
  "policy L state time ph active i p =
     (let t = real i / real PARTICLE_COUNT in
      if mode state = TREE then
        (if type p = PARTICLE then
           let maxRadius = (12::real);
               height = (25::real);
               radius = maxRadius * (1 - t);
               angle = t * 50 * pi + time * 0.2
           in p\<lparr>targetPosition := vset (cos angle * radius) (t * height - 10) (sin angle * radius),
                targetRotation := eset 0 angle 0,
                targetScale := vset 1 1 1\<rparr>
         else if type p = PHOTO then
           let idx = indexOf ph i;
               angle = (real_of_int idx / real (length ph)) * pi * 2 + time * 0.1;
               radius = (15::real)
           in p\<lparr>targetPosition := vset (cos angle * radius) 5 (sin angle * radius),
                targetRotation := eset 0 (- angle) 0,
                targetScale := vset 1 1 1\<rparr>
         else p)
      else if mode state = SCATTER then
        (if type p = PARTICLE then
           let angle = t * pi * 2 + time * 0.1;
               r = 15 + sin (time + t * 10) * 5
           in p\<lparr>targetPosition := vset (cos angle * r) (sin (time * 0.5 + t * 5) * 10) (sin angle * r),
                mesh := addRotationY L (addRotationX L (mesh p) (vx (rotationSpeed p)))
                          (vy (rotationSpeed p)),
                targetScale := vset 1 1 1\<rparr>
         else if type p = PHOTO then
           let idx = indexOf ph i;
               angle = (real_of_int idx / real (length ph)) * pi * 2 - time * 0.05
           in p\<lparr>targetPosition := vset (cos angle * 20) (sin (real_of_int idx) * 10) (sin angle * 20),
                targetRotation := eset 0 time 0,
                targetScale := vset 1 1 1\<rparr>
         else p)
      else if mode state = FOCUS then
        (if active = Some i then
           p\<lparr>targetPosition := vset 0 2 35,
             targetRotation := eset 0 0 0,
             targetScale := vset 4.5 4.5 4.5\<rparr>
         else
           let angle = t * pi * 2
           in p\<lparr>targetPosition := vset (cos angle * 40) ((t - 0.5) * 60) (sin angle * 40),
                targetScale := vset 0.5 0.5 0.5\<rparr>)
      else p)"

definition smooth :: "Three \<Rightarrow> State \<Rightarrow> ParticleData \<Rightarrow> ParticleData" where
  \<comment> \<open>lines 289 to 294\<close>
  "smooth L state p =
     (let m1 = (mesh p)\<lparr>position := lerp (position (mesh p)) (targetPosition p) 0.05\<rparr>;
          m2 = m1\<lparr>scale := lerp (scale m1) (targetScale p) 0.05\<rparr>;
          m3 = (if mode state \<noteq> SCATTER \<or> type p = PHOTO
                then quaternion_slerp L m2 (setFromEuler L (targetRotation p)) 0.05
                else m2)
      in p\<lparr>mesh := m3\<rparr>)"

definition fall :: "ParticleData \<Rightarrow> ParticleData" where
  \<comment> \<open>lines 228 and 229, the DUST branch\<close>
  "fall p =
     (let y1 = vy (position (mesh p)) - 0.05;
          y2 = (if y1 < - 30 then 30 else y1)
      in p\<lparr>mesh := (mesh p)\<lparr>position := (position (mesh p))\<lparr>vy := y2\<rparr>\<rparr>\<rparr>)"

definition update_particle ::
  "Three \<Rightarrow> State \<Rightarrow> real \<Rightarrow> nat list \<Rightarrow> nat option \<Rightarrow> nat \<Rightarrow> ParticleData \<Rightarrow> ParticleData" where
  \<comment> \<open>the body of the \<open>forEach\<close> callback, lines 226 to 295\<close>
  "update_particle L state time ph active i p =
     (if type p = DUST then fall p
      else smooth L state (policy L state time ph active i p))"

definition update :: "Three \<Rightarrow> State \<Rightarrow> real \<Rightarrow> Experience \<Rightarrow> Experience" where
  \<comment> \<open>\<open>Experience.update\<close>; \<open>time\<close> is the value of \<open>clock.getElapsedTime()\<close>\<close>
  "update L state time e =
     (let r1 = (mainGroup_rotation e)
                 \<lparr>ey := MathUtils_lerp (ey (mainGroup_rotation e)) (handX state * pi) 0.1\<rparr>;
          r2 = r1\<lparr>ex := MathUtils_lerp (ex r1) (handY state * pi * 0.5) 0.1\<rparr>;
          ph = photos (particles e);
          active = activePhoto state ph
      in e\<lparr>mainGroup_rotation := r2,
           particles := map (\<lambda>i. update_particle L state time ph active i (particles e ! i))
                          [0..<length (particles e)]\<rparr>)"

section \<open>The frame driver\<close>

text \<open>
  The host runs two callbacks on every display frame: \<open>processFrame\<close>, which may change
  the state, and \<open>animate\<close>, which calls \<open>Experience.update\<close> with the state. A frame of
  input is the guard of \<open>processFrame\<close>, the landmarks the detector reports and the
  elapsed time the clock shows; \<open>tick\<close> is one firing of both callbacks and \<open>run\<close> a
  sequence of them. \<open>no_hand\<close> holds of a frame on which no hand is seen. The state that
  \<open>processFrame\<close> returns is the one handed to \<open>update\<close>; the development uses \<open>run\<close>
  on frames without a hand only, on which the state does not change (when the mode
  changes, the host builds a new scene, which is outside this model).
\<close>

type_synonym frame = "bool \<times> NormalizedLandmark list list option \<times> real"

definition tick :: "Three \<Rightarrow> frame \<Rightarrow> State \<times> Experience \<Rightarrow> error + State \<times> Experience" where
  "tick L inp se =
     (case processFrame (fst inp) (fst (snd inp)) (fst se) of
        Inl err \<Rightarrow> Inl err
      | Inr st' \<Rightarrow> Inr (st', update L st' (snd (snd inp)) (snd se)))"

fun run :: "Three \<Rightarrow> frame list \<Rightarrow> State \<times> Experience \<Rightarrow> error + State \<times> Experience" where
  "run L [] se = Inr se"
| "run L (inp # inps) se =
     (case tick L inp se of Inl err \<Rightarrow> Inl err | Inr se' \<Rightarrow> run L inps se')"

definition no_hand :: "frame \<Rightarrow> bool" where
  "no_hand inp = (\<not> fst inp \<or> fst (snd inp) = None \<or> fst (snd inp) = Some [])"

section \<open>Specification-side notions\<close>

text \<open>
  The gesture label of the specification (section 4.1, step 3), written after the
  specification's words; the source has no such label and decides the next mode directly.
\<close>

datatype Gesture = G_PINCH | G_FIST | G_OPEN | G_NONE

definition spec_gesture :: "real \<Rightarrow> real \<Rightarrow> Gesture" where
  "spec_gesture pd ad =
     (if pd < 0.05 then G_PINCH
      else if ad < 0.25 then G_FIST
      else if ad > 0.4 then G_OPEN
      else G_NONE)"

text \<open>
  The Euclidean distance of two vectors, in which the specification states convergence.
\<close>

definition vdist :: "Vector3 \<Rightarrow> Vector3 \<Rightarrow> real" where
  "vdist a b = sqrt ((vx a - vx b)\<^sup>2 + (vy a - vy b)\<^sup>2 + (vz a - vz b)\<^sup>2)"

text \<open>
  Orientations are compared by the angle of the rotation that takes one to the other: for
  unit quaternions it is twice the arc cosine of the absolute value of their inner
  product. \<open>slerp_contracts L c\<close> states what convergence of the orientation needs from the
  library at blend factor 0.05: \<open>setFromEuler\<close> gives unit quaternions, and \<open>slerp\<close>
  between unit quaternions gives a unit quaternion whose angle to the target is at most
  \<open>c\<close> times the angle before, for a factor \<open>c\<close> below 1.
\<close>

definition qdot :: "Quaternion \<Rightarrow> Quaternion \<Rightarrow> real" where
  "qdot a b = qx a * qx b + qy a * qy b + qz a * qz b + qw a * qw b"

definition unitq :: "Quaternion \<Rightarrow> bool" where
  "unitq q = (qdot q q = 1)"

definition angle_between :: "Quaternion \<Rightarrow> Quaternion \<Rightarrow> real" where
  "angle_between a b = 2 * arccos \<bar>qdot a b\<bar>"

definition slerp_contracts :: "Three \<Rightarrow> real \<Rightarrow> bool" where
  "slerp_contracts L c =
     (0 \<le> c \<and> c < 1 \<and> (\<forall>e. unitq (setFromEuler L e)) \<and>
      (\<forall>r qb. unitq (snd r) \<and> unitq qb \<longrightarrow>
         unitq (snd (slerp L r qb 0.05)) \<and>
         angle_between (snd (slerp L r qb 0.05)) qb \<le> c * angle_between (snd r) qb))"

section \<open>Concrete inputs\<close>

text \<open>
  \<open>state0\<close> is the initial state of \<open>App\<close>. \<open>hand0\<close> is a hand whose thumb tip and index
  tip coincide while all finger tips are at distance 1 from the wrist; \<open>hand1\<close> is a hand
  with pinch distance 0.3 and average spread 0.3.
\<close>

definition state0 :: State where
  "state0 = \<lparr>mode = TREE, handX = 0, handY = 0, isPinching = False, isFist = False,
     isOpen = False, activePhotoIndex = 0, loading = True, uiHidden = False\<rparr>"

definition hand0 :: "NormalizedLandmark list" where
  "hand0 = \<lparr>lx = 0, ly = 0, lz = 0\<rparr> # replicate 20 \<lparr>lx = 1, ly = 0, lz = 0\<rparr>"

definition hand1 :: "NormalizedLandmark list" where
  "hand1 = (replicate 21 \<lparr>lx = 0.3, ly = 0, lz = 0\<rparr>)
             [0 := \<lparr>lx = 0, ly = 0, lz = 0\<rparr>, 4 := \<lparr>lx = 0.6, ly = 0, lz = 0\<rparr>]"

text \<open>
  \<open>lib0\<close> is one instance of the library parameters, used to evaluate the model at
  concrete inputs; the theorems hold for every instance. \<open>ornament0\<close>, \<open>photo0\<close> and
  \<open>dust0\<close> are particles as the constructor creates them, \<open>exp0\<close> and \<open>exp1\<close> registries
  with and without a photo.
\<close>

definition lib0 :: Three where
  "lib0 = \<lparr>setFromEuler = (\<lambda>e.
             let c1 = cos (ex e / 2); c2 = cos (ey e / 2); c3 = cos (ez e / 2);
                 s1 = sin (ex e / 2); s2 = sin (ey e / 2); s3 = sin (ez e / 2)
             in \<lparr>qx = s1 * c2 * c3 + c1 * s2 * s3,
                 qy = c1 * s2 * c3 - s1 * c2 * s3,
                 qz = c1 * c2 * s3 + s1 * s2 * c3,
                 qw = c1 * c2 * c3 - s1 * s2 * s3\<rparr>),
           slerp = (\<lambda>r qb t. (fst r,
             \<lparr>qx = qx (snd r) + (qx qb - qx (snd r)) * t,
              qy = qy (snd r) + (qy qb - qy (snd r)) * t,
              qz = qz (snd r) + (qz qb - qz (snd r)) * t,
              qw = qw (snd r) + (qw qb - qw (snd r)) * t\<rparr>))\<rparr>"

definition mesh0 :: Mesh where
  "mesh0 = \<lparr>position = vset 0 0 0, rotation = eset 0 0 0,
            quaternion = \<lparr>qx = 0, qy = 0, qz = 0, qw = 1\<rparr>, scale = vset 1 1 1\<rparr>"

definition ornament0 :: ParticleData where
  "ornament0 = \<lparr>mesh = mesh0, type = PARTICLE, targetPosition = vset 0 0 0,
     targetRotation = eset 0 0 0, targetScale = vset 1 1 1,
     velocity = vset 0.5 (- 0.5) 0.8, rotationSpeed = vset 0.01 0.02 0.03\<rparr>"

definition photo0 :: ParticleData where
  "photo0 = \<lparr>mesh = mesh0, type = PHOTO, targetPosition = vset 0 0 0,
     targetRotation = eset 0 0 0, targetScale = vset 1 1 1,
     velocity = vset 0 0 0, rotationSpeed = vset 0 0 0\<rparr>"

definition dust0 :: ParticleData where
  "dust0 = \<lparr>mesh = mesh0\<lparr>position := vset 3 (- 29.98) 7\<rparr>, type = DUST,
     targetPosition = vset 3 (- 29.98) 7,
     targetRotation = eset 0 0 0, targetScale = vset 1 1 1,
     velocity = vset 0 (- 0.01) 0, rotationSpeed = vset 0 0 0\<rparr>"

definition exp0 :: Experience where
  "exp0 = \<lparr>mainGroup_rotation = eset 0 0 0, particles = [ornament0, photo0, dust0]\<rparr>"

definition stateS :: State where
  "stateS = state0\<lparr>mode := SCATTER\<rparr>"

definition stateF :: State where
  "stateF = state0\<lparr>mode := FOCUS, activePhotoIndex := 1\<rparr>"

definition exp1 :: Experience where
  "exp1 = \<lparr>mainGroup_rotation = eset 0 0 0, particles = [ornament0, dust0]\<rparr>"

text \<open>
  \<open>target0\<close> is a new ornament with a target 20 units away.
\<close>

definition target0 :: ParticleData where
  "target0 = ornament0\<lparr>targetPosition := vset 20 0 0, targetScale := vset 0.5 0.5 0.5\<rparr>"

text \<open>
  One hundred frames without a hand, at sixty frames per second.
\<close>

definition times100 :: "real list" where
  "times100 = map (\<lambda>k. real k / 60) [1..<101]"

definition frames100 :: "frame list" where
  "frames100 = map (\<lambda>t. (True, Some [], t)) times100"

text \<open>
  \<open>lib1\<close> is the library in exact arithmetic: \<open>exact_slerp\<close> is the spherical linear
  interpolation that \<open>Quaternion.slerp\<close> computes (the shorter arc, nothing to do when
  the two quaternions agree, the Euler view refreshed from the new quaternion in the
  order XYZ), without the branches that only guard against rounding. \<open>expT1\<close> is the
  registry \<open>exp0\<close> after one tick in TREE mode at time 5 with this library, which leaves
  the yaw 1 as the target orientation of the ornament.
\<close>

definition qcomb :: "real \<Rightarrow> Quaternion \<Rightarrow> real \<Rightarrow> Quaternion \<Rightarrow> Quaternion" where
  "qcomb A q B qb =
     \<lparr>qx = qx q * A + qx qb * B, qy = qy q * A + qy qb * B,
      qz = qz q * A + qz qb * B, qw = qw q * A + qw qb * B\<rparr>"

definition clamp :: "real \<Rightarrow> real \<Rightarrow> real \<Rightarrow> real" where
  "clamp v lo hi = max lo (min hi v)"

definition atan2 :: "real \<Rightarrow> real \<Rightarrow> real" where
  "atan2 b a =
     (if 0 < a then arctan (b / a)
      else if a < 0 then (if 0 \<le> b then arctan (b / a) + pi else arctan (b / a) - pi)
      else if 0 < b then pi / 2
      else if b < 0 then - (pi / 2)
      else 0)"

definition euler_setFromQuaternion :: "Quaternion \<Rightarrow> Euler" where
  "euler_setFromQuaternion q =
     (let x = qx q; y = qy q; z = qz q; w = qw q;
          m11 = 1 - (y * (y + y) + z * (z + z));
          m12 = x * (y + y) - w * (z + z);
          m13 = x * (z + z) + w * (y + y);
          m22 = 1 - (x * (x + x) + z * (z + z));
          m23 = y * (z + z) - w * (x + x);
          m32 = y * (z + z) + w * (x + x);
          m33 = 1 - (x * (x + x) + y * (y + y))
      in if \<bar>m13\<bar> < 0.9999999
         then \<lparr>ex = atan2 (- m23) m33, ey = arcsin (clamp m13 (- 1) 1), ez = atan2 (- m12) m11\<rparr>
         else \<lparr>ex = atan2 m32 m22, ey = arcsin (clamp m13 (- 1) 1), ez = 0\<rparr>)"

definition exact_slerp :: "Euler \<times> Quaternion \<Rightarrow> Quaternion \<Rightarrow> real \<Rightarrow> Euler \<times> Quaternion" where
  "exact_slerp r qb t =
     (let q = snd r;
          d = qdot q qb;
          sg = (if d < 0 then - 1 else 1);
          cosHalfTheta = sg * d
      in if 1 \<le> cosHalfTheta then r
         else
           let halfTheta = arccos cosHalfTheta;
               sinHalfTheta = sin halfTheta;
               ratioA = sin ((1 - t) * halfTheta) / sinHalfTheta;
               ratioB = sin (t * halfTheta) / sinHalfTheta;
               q' = qcomb ratioA q (sg * ratioB) qb
           in (euler_setFromQuaternion q', q'))"

definition lib1 :: Three where
  "lib1 = lib0\<lparr>slerp := exact_slerp\<rparr>"

definition expT1 :: Experience where
  "expT1 = update lib1 state0 5 exp0"

section \<open>The classifier\<close>

lemma processFrame_hand:
  "21 \<le> length landmarks \<Longrightarrow>
   processFrame True (Some (landmarks # rest)) prev =
     Inr (nextState ((lx (landmarks ! 9) - 0.5) * 2) ((ly (landmarks ! 9) - 0.5) * 2)
            (pinchDist landmarks) (avgDist landmarks) prev)"
  by (simp add: processFrame_def Let_def)

lemma processFrame_cases:
  assumes "processFrame ready results prev = Inr s'"
  shows "s' = prev \<or> (\<exists>hx hy pd ad. s' = nextState hx hy pd ad prev)"
  using assms
  by (auto simp: processFrame_def Let_def split: if_splits option.splits list.splits)

lemma hypot3_axis: "hypot3 a 0 0 = \<bar>a\<bar>"
  by (simp add: hypot3_def)

lemma pinchDist_hand0: "pinchDist hand0 = 0"
  by (simp add: pinchDist_def hand0_def hypot3_def)

lemma avgDist_hand0: "avgDist hand0 = 1"
  by (simp add: avgDist_def hand0_def hypot3_def)

lemma processFrame_hand0_state0:
  "processFrame True (Some [hand0]) state0 =
     Inr (state0\<lparr>handX := 1, handY := - 1, mode := FOCUS, activePhotoIndex := 1\<rparr>)"
proof -
  have len: "21 \<le> length hand0" by (simp add: hand0_def)
  have c: "lx (hand0 ! 9) = 1 \<and> ly (hand0 ! 9) = 0" by (simp add: hand0_def)
  have "processFrame True (Some [hand0]) state0 =
     Inr (nextState ((lx (hand0 ! 9) - 0.5) * 2) ((ly (hand0 ! 9) - 0.5) * 2)
            (pinchDist hand0) (avgDist hand0) state0)"
    by (rule processFrame_hand [OF len])
  also have "nextState ((lx (hand0 ! 9) - 0.5) * 2) ((ly (hand0 ! 9) - 0.5) * 2)
            (pinchDist hand0) (avgDist hand0) state0 =
       state0\<lparr>handX := 1, handY := - 1, mode := FOCUS, activePhotoIndex := 1\<rparr>"
    by (simp add: c nextState_def pinchDist_hand0 avgDist_hand0 PINCH_def state0_def)
  finally show ?thesis .
qed

text \<open>
  The counter of the active photo never becomes negative: it starts at 0 in \<open>state0\<close> and
  a frame either keeps it or adds one.
\<close>

lemma processFrame_activePhotoIndex_nonneg:
  assumes "processFrame ready results prev = Inr s'" and "0 \<le> activePhotoIndex prev"
  shows "0 \<le> activePhotoIndex s'"
  using processFrame_cases [OF assms(1)] assms(2)
  by (auto simp: nextState_def)

text \<open>
  Claim C2. For every frame with a hand, the next mode is decided in the order pinch,
  fist, open, and the first test that holds wins: the next mode is FOCUS for a pinch,
  TREE for a fist, SCATTER for an open hand and the previous mode otherwise. In
  particular a frame whose pinch distance is below PINCH and whose average spread is
  above OPEN gives FOCUS, not SCATTER.
\<close>

theorem pinch_takes_precedence:
  assumes "21 \<le> length landmarks"
  shows "\<exists>s'. processFrame True (Some (landmarks # rest)) prev = Inr s' \<and>
           mode s' = (case spec_gesture (pinchDist landmarks) (avgDist landmarks) of
                        G_PINCH \<Rightarrow> FOCUS | G_FIST \<Rightarrow> TREE | G_OPEN \<Rightarrow> SCATTER
                      | G_NONE \<Rightarrow> mode prev) \<and>
           (pinchDist landmarks < PINCH \<and> avgDist landmarks > OPEN \<longrightarrow> mode s' = FOCUS)"
  using assms
  by (simp add: processFrame_hand nextState_def spec_gesture_def PINCH_def FIST_def OPEN_def)

theorem pinch_takes_precedence_witness:
  "21 \<le> length hand0 \<and> pinchDist hand0 < PINCH \<and> avgDist hand0 > OPEN \<and>
   (\<exists>s'. processFrame True (Some [hand0]) (state0\<lparr>mode := SCATTER\<rparr>) = Inr s' \<and> mode s' = FOCUS)"
proof -
  have len: "21 \<le> length hand0" by (simp add: hand0_def)
  have th: "pinchDist hand0 < PINCH \<and> avgDist hand0 > OPEN"
    by (simp add: pinchDist_hand0 avgDist_hand0 PINCH_def OPEN_def)
  from pinch_takes_precedence [OF len, of "[]" "state0\<lparr>mode := SCATTER\<rparr>"] th len
  show ?thesis by auto
qed

text \<open>
  Claim C3. A frame either keeps \<open>activePhotoIndex\<close> or it is an edge from TREE or
  SCATTER into FOCUS that adds exactly 1. On a frame with a hand: a pinch in FOCUS keeps
  mode and counter, a pinch in TREE or SCATTER enters FOCUS and adds 1, and a fist, an
  open hand or no gesture keep the counter.
\<close>

theorem activePhotoIndex_changes_on_focus_edge:
  assumes "processFrame ready results prev = Inr s'"
  shows "(activePhotoIndex s' = activePhotoIndex prev \<or>
          (mode prev \<noteq> FOCUS \<and> mode s' = FOCUS \<and>
           activePhotoIndex s' = activePhotoIndex prev + 1)) \<and>
         (\<forall>landmarks rest. ready \<and> results = Some (landmarks # rest) \<longrightarrow>
            (case spec_gesture (pinchDist landmarks) (avgDist landmarks) of
               G_PINCH \<Rightarrow>
                 mode s' = FOCUS \<and>
                 (if mode prev = FOCUS then activePhotoIndex s' = activePhotoIndex prev
                  else activePhotoIndex s' = activePhotoIndex prev + 1)
             | G_FIST \<Rightarrow> mode s' = TREE \<and> activePhotoIndex s' = activePhotoIndex prev
             | G_OPEN \<Rightarrow> mode s' = SCATTER \<and> activePhotoIndex s' = activePhotoIndex prev
             | G_NONE \<Rightarrow> mode s' = mode prev \<and> activePhotoIndex s' = activePhotoIndex prev))"
proof (intro conjI allI impI)
  from processFrame_cases [OF assms]
  show "activePhotoIndex s' = activePhotoIndex prev \<or>
          (mode prev \<noteq> FOCUS \<and> mode s' = FOCUS \<and>
           activePhotoIndex s' = activePhotoIndex prev + 1)"
    by (auto simp: nextState_def split: if_splits)
next
  fix landmarks rest
  assume h: "ready \<and> results = Some (landmarks # rest)"
  with assms have "21 \<le> length landmarks"
    by (auto simp: processFrame_def split: if_splits)
  from processFrame_hand [OF this, of rest prev] assms h
  have "s' = nextState ((lx (landmarks ! 9) - 0.5) * 2) ((ly (landmarks ! 9) - 0.5) * 2)
            (pinchDist landmarks) (avgDist landmarks) prev"
    by simp
  then show "case spec_gesture (pinchDist landmarks) (avgDist landmarks) of
               G_PINCH \<Rightarrow>
                 mode s' = FOCUS \<and>
                 (if mode prev = FOCUS then activePhotoIndex s' = activePhotoIndex prev
                  else activePhotoIndex s' = activePhotoIndex prev + 1)
             | G_FIST \<Rightarrow> mode s' = TREE \<and> activePhotoIndex s' = activePhotoIndex prev
             | G_OPEN \<Rightarrow> mode s' = SCATTER \<and> activePhotoIndex s' = activePhotoIndex prev
             | G_NONE \<Rightarrow> mode s' = mode prev \<and> activePhotoIndex s' = activePhotoIndex prev"
    by (simp add: nextState_def spec_gesture_def PINCH_def FIST_def OPEN_def)
qed

theorem activePhotoIndex_changes_on_focus_edge_witness:
  "processFrame True (Some [hand0]) state0 =
     Inr (state0\<lparr>handX := 1, handY := - 1, mode := FOCUS, activePhotoIndex := 1\<rparr>) \<and>
   spec_gesture (pinchDist hand0) (avgDist hand0) = G_PINCH \<and>
   mode state0 \<noteq> FOCUS \<and>
   activePhotoIndex (state0\<lparr>handX := 1, handY := - 1, mode := FOCUS, activePhotoIndex := 1\<rparr>)
     = activePhotoIndex state0 + 1"
  using activePhotoIndex_changes_on_focus_edge [OF processFrame_hand0_state0]
    processFrame_hand0_state0
  by (simp add: spec_gesture_def pinchDist_hand0 state0_def)

text \<open>
  Claim C8. A frame without a hand (the detector is not ready, or it reports no
  landmarks, or an empty list of hands) returns the state as it was. A frame with a hand
  writes \<open>handX = (center.x - 0.5) * 2\<close> and \<open>handY = (center.y - 0.5) * 2\<close> from landmark
  9 whatever the gesture; when the gesture is none, nothing else changes.
\<close>

theorem hand_signal_written_or_state_kept:
  "processFrame False results prev = Inr prev \<and>
   processFrame ready None prev = Inr prev \<and>
   processFrame ready (Some []) prev = Inr prev \<and>
   (21 \<le> length landmarks \<longrightarrow>
      (\<exists>s'. processFrame True (Some (landmarks # rest)) prev = Inr s' \<and>
         handX s' = (lx (landmarks ! 9) - 0.5) * 2 \<and>
         handY s' = (ly (landmarks ! 9) - 0.5) * 2 \<and>
         (spec_gesture (pinchDist landmarks) (avgDist landmarks) = G_NONE \<longrightarrow>
            s' = prev\<lparr>handX := (lx (landmarks ! 9) - 0.5) * 2,
                       handY := (ly (landmarks ! 9) - 0.5) * 2\<rparr>)))"
  by (auto simp: processFrame_def nextState_def spec_gesture_def PINCH_def FIST_def OPEN_def
      Let_def split: if_splits)

theorem hand_signal_written_or_state_kept_witness:
  "21 \<le> length hand1 \<and> spec_gesture (pinchDist hand1) (avgDist hand1) = G_NONE \<and>
   processFrame True (Some [hand1]) state0 = Inr (state0\<lparr>handX := - 0.4, handY := - 1\<rparr>)"
proof -
  have len: "21 \<le> length hand1" by (simp add: hand1_def)
  have p: "pinchDist hand1 = 0.3"
    by (simp add: pinchDist_def hand1_def hypot3_axis)
  have a: "avgDist hand1 = 0.3"
    by (simp add: avgDist_def hand1_def hypot3_axis)
  have g: "spec_gesture (pinchDist hand1) (avgDist hand1) = G_NONE"
    by (simp add: p a spec_gesture_def)
  have c: "lx (hand1 ! 9) = 0.3 \<and> ly (hand1 ! 9) = 0" by (simp add: hand1_def)
  from hand_signal_written_or_state_kept [of None state0 True hand1 "[]"] len g c
  show ?thesis by auto
qed

section \<open>One tick of the engine\<close>

lemma length_update [simp]: "length (particles (update L st time e)) = length (particles e)"
  by (simp add: update_def Let_def)

lemma nth_update:
  "i < length (particles e) \<Longrightarrow>
   particles (update L st time e) ! i =
     update_particle L st time (photos (particles e)) (activePhoto st (photos (particles e))) i
       (particles e ! i)"
  by (simp add: update_def Let_def)

lemma type_policy [simp]: "type (policy L st time ph active i p) = type p"
  by (simp add: policy_def Let_def)

lemma type_smooth [simp]: "type (smooth L st p) = type p"
  by (simp add: smooth_def Let_def)

lemma type_fall [simp]: "type (fall p) = type p"
  by (simp add: fall_def Let_def)

lemma type_update_particle [simp]: "type (update_particle L st time ph active i p) = type p"
  by (simp add: update_particle_def)

lemma photos_update [simp]: "photos (particles (update L st time e)) = photos (particles e)"
  unfolding photos_def
  by (rule filter_cong) (simp_all add: nth_update)

lemma targets_smooth [simp]:
  "targetPosition (smooth L st p) = targetPosition p"
  "targetRotation (smooth L st p) = targetRotation p"
  "targetScale (smooth L st p) = targetScale p"
  by (simp_all add: smooth_def Let_def)

section \<open>Targets and motion of the particles\<close>

text \<open>
  Claim C1, as the code has it. In TREE mode the target of an ORNAMENT particle of rank
  \<open>t = index / PARTICLE_COUNT\<close> is the conical helix with \<open>radius = 12 * (1 - t)\<close> and
  \<open>angle = 50 * t * pi + 0.2 * time\<close>: position
  \<open>(radius * cos angle, t * 25 - 10, radius * sin angle)\<close>, orientation the yaw by
  \<open>angle\<close> and scale \<open>(1, 1, 1)\<close>. The vertical offset is the constant 10, not half the
  height.
\<close>

theorem tree_ornament_target:
  assumes "mode state = TREE" and "i < length (particles e)"
    and "type (particles e ! i) = PARTICLE"
  shows "let t = real i / real PARTICLE_COUNT;
             radius = 12 * (1 - t);
             angle = 50 * t * pi + 0.2 * time;
             p' = particles (update L state time e) ! i
         in targetPosition p' = \<lparr>vx = radius * cos angle, vy = t * 25 - 10, vz = radius * sin angle\<rparr> \<and>
            targetRotation p' = \<lparr>ex = 0, ey = angle, ez = 0\<rparr> \<and>
            targetScale p' = \<lparr>vx = 1, vy = 1, vz = 1\<rparr>"
  using assms
  by (simp add: nth_update update_particle_def policy_def Let_def vset_def eset_def mult.commute
      mult.left_commute)

lemma exp0_nth: "particles exp0 ! 0 = ornament0" "particles exp0 ! Suc 0 = photo0"
  "particles exp0 ! 2 = dust0" "length (particles exp0) = 3"
  by (simp_all add: exp0_def)

theorem tree_ornament_target_witness:
  "mode state0 = TREE \<and> 0 < length (particles exp0) \<and> type (particles exp0 ! 0) = PARTICLE \<and>
   targetPosition (particles (update lib0 state0 0 exp0) ! 0) = \<lparr>vx = 12, vy = - 10, vz = 0\<rparr> \<and>
   targetRotation (particles (update lib0 state0 0 exp0) ! 0) = \<lparr>ex = 0, ey = 0, ez = 0\<rparr> \<and>
   targetScale (particles (update lib0 state0 0 exp0) ! 0) = \<lparr>vx = 1, vy = 1, vz = 1\<rparr>"
proof -
  have h: "mode state0 = TREE" "0 < length (particles exp0)" "type (particles exp0 ! 0) = PARTICLE"
    by (simp_all add: state0_def exp0_nth ornament0_def)
  from tree_ornament_target [OF h, of 0 lib0] h show ?thesis
    by (simp add: Let_def)
qed

text \<open>
  Claim C1 as stated fails: for the ornament of rank 0 the target height is \<open>- 10\<close>,
  whereas \<open>t * height - height / 2\<close> is \<open>- 12.5\<close>.
\<close>

theorem tree_ornament_height_counterexample:
  "vy (targetPosition (particles (update lib0 state0 0 exp0) ! 0))
     \<noteq> (real 0 / real PARTICLE_COUNT) * 25 - 25 / 2"
  by (simp add: nth_update exp0_nth update_particle_def ornament0_def policy_def state0_def
      Let_def vset_def)

text \<open>
  Claim C5. In every mode a tick changes nothing of a DUST particle but the vertical
  coordinate of its position, which goes down by 0.05 and, when the lowered value is below
  \<open>- 30\<close>, is set to 30 on that tick; so after a tick it is never below \<open>- 30\<close>.
\<close>

theorem dust_falls_and_wraps:
  assumes "i < length (particles e)" and "type (particles e ! i) = DUST"
  shows "let p = particles e ! i;
             p' = particles (update L state time e) ! i;
             y1 = vy (position (mesh p)) - 0.05
         in p' = p\<lparr>mesh := (mesh p)\<lparr>position :=
                    (position (mesh p))\<lparr>vy := (if y1 < - 30 then 30 else y1)\<rparr>\<rparr>\<rparr> \<and>
            vx (position (mesh p')) = vx (position (mesh p)) \<and>
            vz (position (mesh p')) = vz (position (mesh p)) \<and>
            - 30 \<le> vy (position (mesh p')) \<and>
            (y1 < - 30 \<longrightarrow> vy (position (mesh p')) = 30) \<and>
            (\<not> y1 < - 30 \<longrightarrow> vy (position (mesh p')) = vy (position (mesh p)) - 0.05)"
  using assms
  by (simp add: nth_update update_particle_def fall_def Let_def)

theorem dust_falls_and_wraps_witness:
  "2 < length (particles exp0) \<and> type (particles exp0 ! 2) = DUST \<and>
   vy (position (mesh (particles exp0 ! 2))) - 0.05 < - 30 \<and>
   position (mesh (particles (update lib0 state0 0 exp0) ! 2)) = \<lparr>vx = 3, vy = 30, vz = 7\<rparr>"
proof -
  have h: "2 < length (particles exp0)" "type (particles exp0 ! 2) = DUST"
    by (simp_all add: exp0_nth dust0_def)
  from dust_falls_and_wraps [OF h, of lib0 state0 0] h show ?thesis
    by (simp add: Let_def exp0_nth dust0_def vset_def)
qed

lemma orientation_spin:
  assumes "mode state = SCATTER" and "type p = PARTICLE"
  shows "rotation (mesh (update_particle L state time ph active i p)) =
           \<lparr>ex = ex (rotation (mesh p)) + vx (rotationSpeed p),
            ey = ey (rotation (mesh p)) + vy (rotationSpeed p),
            ez = ez (rotation (mesh p))\<rparr>"
    and "quaternion (mesh (update_particle L state time ph active i p)) =
           setFromEuler L (rotation (mesh (update_particle L state time ph active i p)))"
  using assms
  by (simp_all add: update_particle_def smooth_def policy_def Let_def addRotationX_def
      addRotationY_def)

lemma mesh_policy_unspun:
  assumes "\<not> (mode state = SCATTER \<and> type p = PARTICLE)"
  shows "mesh (policy L state time ph active i p) = mesh p"
  using assms by (cases "mode state") (simp_all add: policy_def Let_def)

lemma orientation_slerp:
  assumes "type p \<noteq> DUST" and "\<not> (mode state = SCATTER \<and> type p = PARTICLE)"
  shows "(rotation (mesh (update_particle L state time ph active i p)),
          quaternion (mesh (update_particle L state time ph active i p))) =
         slerp L (rotation (mesh p), quaternion (mesh p))
           (setFromEuler L (targetRotation (update_particle L state time ph active i p))) 0.05"
proof -
  from assms have c: "mode state \<noteq> SCATTER \<or> type p = PHOTO"
    by (cases "type p") auto
  have "mesh (smooth L state (policy L state time ph active i p)) =
        quaternion_slerp L
          ((mesh p)\<lparr>position := lerp (position (mesh p))
                       (targetPosition (policy L state time ph active i p)) 0.05,
                    scale := lerp (scale (mesh p))
                       (targetScale (policy L state time ph active i p)) 0.05\<rparr>)
          (setFromEuler L (targetRotation (policy L state time ph active i p))) 0.05"
    using c by (auto simp: smooth_def Let_def mesh_policy_unspun [OF assms(2)])
  then show ?thesis
    using assms(1) by (simp add: update_particle_def quaternion_slerp_def Let_def)
qed

text \<open>
  Claim C6, as the code has it. For an ORNAMENT in SCATTER mode a tick adds the \<open>x\<close> and
  \<open>y\<close> components of \<open>rotationSpeed\<close> to the \<open>x\<close> and \<open>y\<close> Euler angles of the particle
  and leaves the \<open>z\<close> angle alone; the quaternion is the one of the new angles and no
  interpolation takes place. For every other combination of mode and kind (ORNAMENT or
  PHOTO) the orientation is the result of \<open>slerp\<close> from the previous orientation toward
  the target orientation with factor 0.05.
\<close>

theorem scatter_ornament_spins:
  assumes "i < length (particles e)" and "type (particles e ! i) \<noteq> DUST"
  shows "let p = particles e ! i;
             p' = particles (update L state time e) ! i
         in (mode state = SCATTER \<and> type p = PARTICLE \<longrightarrow>
               rotation (mesh p') =
                 \<lparr>ex = ex (rotation (mesh p)) + vx (rotationSpeed p),
                  ey = ey (rotation (mesh p)) + vy (rotationSpeed p),
                  ez = ez (rotation (mesh p))\<rparr> \<and>
               quaternion (mesh p') = setFromEuler L (rotation (mesh p'))) \<and>
            (\<not> (mode state = SCATTER \<and> type p = PARTICLE) \<longrightarrow>
               (rotation (mesh p'), quaternion (mesh p')) =
                 slerp L (rotation (mesh p), quaternion (mesh p))
                   (setFromEuler L (targetRotation p')) 0.05)"
  unfolding Let_def nth_update [OF assms(1)]
  using orientation_spin orientation_slerp [OF assms(2)] by blast

theorem scatter_ornament_spins_witness:
  "0 < length (particles exp0) \<and> type (particles exp0 ! 0) \<noteq> DUST \<and>
   mode stateS = SCATTER \<and> type (particles exp0 ! 0) = PARTICLE \<and>
   rotation (mesh (particles (update lib0 stateS 0 exp0) ! 0)) = \<lparr>ex = 0.01, ey = 0.02, ez = 0\<rparr> \<and>
   1 < length (particles exp0) \<and> type (particles exp0 ! 1) \<noteq> DUST \<and>
   \<not> (mode stateS = SCATTER \<and> type (particles exp0 ! 1) = PARTICLE) \<and>
   (rotation (mesh (particles (update lib0 stateS 0 exp0) ! 1)),
    quaternion (mesh (particles (update lib0 stateS 0 exp0) ! 1))) =
     slerp lib0 (rotation mesh0, quaternion mesh0)
       (setFromEuler lib0 (targetRotation (particles (update lib0 stateS 0 exp0) ! 1))) 0.05"
proof -
  have h0: "0 < length (particles exp0)" "type (particles exp0 ! 0) \<noteq> DUST"
    and h1: "1 < length (particles exp0)" "type (particles exp0 ! 1) \<noteq> DUST"
    and m: "mode stateS = SCATTER" "type (particles exp0 ! 0) = PARTICLE"
      "type (particles exp0 ! 1) = PHOTO"
    by (simp_all add: exp0_nth ornament0_def photo0_def stateS_def)
  from scatter_ornament_spins [OF h0, of lib0 stateS 0]
    scatter_ornament_spins [OF h1, of lib0 stateS 0] h0 h1 m
  show ?thesis
    by (simp add: Let_def exp0_nth ornament0_def photo0_def mesh0_def vset_def eset_def)
qed

text \<open>
  Claim C6 as stated fails on the third component: the \<open>z\<close> angle does not receive the
  \<open>z\<close> component of \<open>rotationSpeed\<close>.
\<close>

theorem scatter_spin_z_counterexample:
  "ez (rotation (mesh (particles (update lib0 stateS 0 exp0) ! 0)))
     \<noteq> ez (rotation (mesh (particles exp0 ! 0))) + vz (rotationSpeed (particles exp0 ! 0))"
  by (simp add: nth_update exp0_nth orientation_spin stateS_def ornament0_def mesh0_def
      vset_def eset_def)

lemma js_rem_nonneg: "0 \<le> a \<Longrightarrow> 0 < b \<Longrightarrow> js_rem a b = a mod b"
  by (cases "a = 0") (simp_all add: js_rem_def)

lemma activePhoto_nonneg:
  assumes "0 \<le> activePhotoIndex state"
  shows "activePhoto state ph =
           (if ph = [] then None
            else Some (ph ! nat (activePhotoIndex state mod int (length ph))))"
proof (cases "ph = []")
  case True
  then show ?thesis by (simp add: activePhoto_def)
next
  case False
  then have b: "0 < int (length ph)" by simp
  then have "0 \<le> activePhotoIndex state mod int (length ph)" by (rule pos_mod_sign)
  then have n: "\<not> activePhotoIndex state mod int (length ph) < 0" by linarith
  from False show ?thesis
    by (simp add: activePhoto_def Let_def js_rem_nonneg [OF assms b] n)
qed

lemma photos_member:
  "j \<in> set (photos ps) \<Longrightarrow> j < length ps \<and> type (ps ! j) = PHOTO"
  by (simp add: photos_def)

lemma photos_nth_mod:
  assumes "photos ps \<noteq> []"
  shows "photos ps ! nat (a mod int (length (photos ps))) \<in> set (photos ps)"
proof -
  from assms have "0 < int (length (photos ps))" by simp
  then have "a mod int (length (photos ps)) < int (length (photos ps))"
    and "0 \<le> a mod int (length (photos ps))"
    by simp_all
  then have "nat (a mod int (length (photos ps))) < length (photos ps)" by linarith
  then show ?thesis by (rule nth_mem)
qed

lemma focus_active_target:
  assumes "mode state = FOCUS" and "active = Some i"
  shows "targetPosition (policy L state time ph active i p) = \<lparr>vx = 0, vy = 2, vz = 35\<rparr>"
    and "targetRotation (policy L state time ph active i p) = \<lparr>ex = 0, ey = 0, ez = 0\<rparr>"
    and "targetScale (policy L state time ph active i p) = \<lparr>vx = 4.5, vy = 4.5, vz = 4.5\<rparr>"
  using assms by (simp_all add: policy_def Let_def vset_def eset_def)

lemma focus_generic_target:
  assumes "mode state = FOCUS" and "active \<noteq> Some i"
  shows "targetPosition (policy L state time ph active i p) =
           \<lparr>vx = 40 * cos (2 * pi * (real i / real PARTICLE_COUNT)),
            vy = (real i / real PARTICLE_COUNT - 0.5) * 60,
            vz = 40 * sin (2 * pi * (real i / real PARTICLE_COUNT))\<rparr>"
    and "targetRotation (policy L state time ph active i p) = targetRotation p"
    and "targetScale (policy L state time ph active i p) = \<lparr>vx = 0.5, vy = 0.5, vz = 0.5\<rparr>"
  using assms by (simp_all add: policy_def Let_def vset_def mult.commute mult.left_commute)

lemma targets_update_particle:
  assumes "type p \<noteq> DUST"
  shows "targetPosition (update_particle L state time ph active i p) =
           targetPosition (policy L state time ph active i p)"
    and "targetRotation (update_particle L state time ph active i p) =
           targetRotation (policy L state time ph active i p)"
    and "targetScale (update_particle L state time ph active i p) =
           targetScale (policy L state time ph active i p)"
  using assms by (simp_all add: update_particle_def)

text \<open>
  Claim C7. In FOCUS mode, with a counter that is not negative: when there is a photo,
  the particle at place \<open>activePhotoIndex mod photoCount\<close> of the photos is a PHOTO
  particle and gets the target position \<open>(0, 2, 35)\<close>, the identity orientation and scale
  4.5; every other particle that is not DUST gets the ring of radius 40 by rank and scale
  0.5; when there is no photo, every particle that is not DUST gets the latter.
\<close>

theorem focus_targets:
  assumes "mode state = FOCUS" and "0 \<le> activePhotoIndex state"
    and "i < length (particles e)" and "type (particles e ! i) \<noteq> DUST"
  shows "let ph = photos (particles e);
             k = nat (activePhotoIndex state mod int (length ph));
             t = real i / real PARTICLE_COUNT;
             p' = particles (update L state time e) ! i
         in (ph \<noteq> [] \<longrightarrow> ph ! k < length (particles e) \<and> type (particles e ! (ph ! k)) = PHOTO) \<and>
            (ph \<noteq> [] \<and> i = ph ! k \<longrightarrow>
               targetPosition p' = \<lparr>vx = 0, vy = 2, vz = 35\<rparr> \<and>
               targetRotation p' = \<lparr>ex = 0, ey = 0, ez = 0\<rparr> \<and>
               targetScale p' = \<lparr>vx = 4.5, vy = 4.5, vz = 4.5\<rparr>) \<and>
            (ph = [] \<or> i \<noteq> ph ! k \<longrightarrow>
               targetPosition p' = \<lparr>vx = 40 * cos (2 * pi * t), vy = (t - 0.5) * 60,
                                    vz = 40 * sin (2 * pi * t)\<rparr> \<and>
               targetScale p' = \<lparr>vx = 0.5, vy = 0.5, vz = 0.5\<rparr>)"
proof -
  let ?ph = "photos (particles e)"
  let ?k = "nat (activePhotoIndex state mod int (length ?ph))"
  let ?a = "activePhoto state ?ph"
  have a: "?a = (if ?ph = [] then None else Some (?ph ! ?k))"
    by (rule activePhoto_nonneg [OF assms(2)])
  have m: "?ph \<noteq> [] \<longrightarrow> ?ph ! ?k < length (particles e) \<and> type (particles e ! (?ph ! ?k)) = PHOTO"
    using photos_nth_mod photos_member by blast
  have act: "?ph \<noteq> [] \<and> i = ?ph ! ?k \<Longrightarrow> ?a = Some i"
    using a by simp
  have gen: "?ph = [] \<or> i \<noteq> ?ph ! ?k \<Longrightarrow> ?a \<noteq> Some i"
    using a by auto
  define p' where "p' = particles (update L state time e) ! i"
  have tp: "targetPosition p' = targetPosition (policy L state time ?ph ?a i (particles e ! i))"
    "targetRotation p' = targetRotation (policy L state time ?ph ?a i (particles e ! i))"
    "targetScale p' = targetScale (policy L state time ?ph ?a i (particles e ! i))"
    by (simp_all add: p'_def nth_update [OF assms(3)] targets_update_particle [OF assms(4)])
  show ?thesis
  proof (cases "?ph \<noteq> [] \<and> i = ?ph ! ?k")
    case True
    have "targetPosition p' = \<lparr>vx = 0, vy = 2, vz = 35\<rparr>"
      "targetRotation p' = \<lparr>ex = 0, ey = 0, ez = 0\<rparr>"
      "targetScale p' = \<lparr>vx = 4.5, vy = 4.5, vz = 4.5\<rparr>"
      by (simp_all only: tp focus_active_target [OF assms(1) act [OF True]])
    with m True show ?thesis
      unfolding Let_def p'_def [symmetric] by blast
  next
    case False
    then have f: "?ph = [] \<or> i \<noteq> ?ph ! ?k" by blast
    have "targetPosition p' =
            \<lparr>vx = 40 * cos (2 * pi * (real i / real PARTICLE_COUNT)),
             vy = (real i / real PARTICLE_COUNT - 0.5) * 60,
             vz = 40 * sin (2 * pi * (real i / real PARTICLE_COUNT))\<rparr>"
      "targetScale p' = \<lparr>vx = 0.5, vy = 0.5, vz = 0.5\<rparr>"
      by (simp_all only: tp focus_generic_target [OF assms(1) gen [OF f]])
    with m False show ?thesis
      unfolding Let_def p'_def [symmetric] by blast
  qed
qed

lemma photos_exp0: "photos (particles exp0) = [1]"
  by (simp add: photos_def exp0_def ornament0_def photo0_def dust0_def)

lemma photos_exp1: "photos (particles exp1) = []"
  by (simp add: photos_def exp1_def ornament0_def dust0_def)

theorem focus_targets_witness:
  "mode stateF = FOCUS \<and> 0 \<le> activePhotoIndex stateF \<and> photos (particles exp0) = [1] \<and>
   type (particles exp0 ! 1) = PHOTO \<and>
   targetPosition (particles (update lib0 stateF 0 exp0) ! 1) = \<lparr>vx = 0, vy = 2, vz = 35\<rparr> \<and>
   targetScale (particles (update lib0 stateF 0 exp0) ! 1) = \<lparr>vx = 4.5, vy = 4.5, vz = 4.5\<rparr> \<and>
   targetPosition (particles (update lib0 stateF 0 exp0) ! 0) = \<lparr>vx = 40, vy = - 30, vz = 0\<rparr> \<and>
   targetScale (particles (update lib0 stateF 0 exp0) ! 0) = \<lparr>vx = 0.5, vy = 0.5, vz = 0.5\<rparr> \<and>
   photos (particles exp1) = [] \<and>
   targetPosition (particles (update lib0 stateF 0 exp1) ! 0) = \<lparr>vx = 40, vy = - 30, vz = 0\<rparr>"
proof -
  have s: "mode stateF = FOCUS" "0 \<le> activePhotoIndex stateF"
    by (simp_all add: stateF_def state0_def)
  have k: "nat (activePhotoIndex stateF mod int (length [1::nat])) = 0"
    by (simp add: stateF_def)
  have h1: "1 < length (particles exp0)" "type (particles exp0 ! 1) \<noteq> DUST"
    and h0: "0 < length (particles exp0)" "type (particles exp0 ! 0) \<noteq> DUST"
    and g0: "0 < length (particles exp1)" "type (particles exp1 ! 0) \<noteq> DUST"
    and p: "type (particles exp0 ! 1) = PHOTO"
    by (simp_all add: exp0_nth exp1_def ornament0_def photo0_def)
  have A: "targetPosition (particles (update lib0 stateF 0 exp0) ! 1) = \<lparr>vx = 0, vy = 2, vz = 35\<rparr> \<and>
   targetScale (particles (update lib0 stateF 0 exp0) ! 1) = \<lparr>vx = 4.5, vy = 4.5, vz = 4.5\<rparr>"
    using focus_targets [OF s h1, of lib0 0]
    by (simp add: Let_def photos_exp0 k)
  have B: "targetPosition (particles (update lib0 stateF 0 exp0) ! 0) = \<lparr>vx = 40, vy = - 30, vz = 0\<rparr> \<and>
   targetScale (particles (update lib0 stateF 0 exp0) ! 0) = \<lparr>vx = 0.5, vy = 0.5, vz = 0.5\<rparr>"
    using focus_targets [OF s h0, of lib0 0]
    by (simp add: Let_def photos_exp0 k)
  have C: "targetPosition (particles (update lib0 stateF 0 exp1) ! 0) = \<lparr>vx = 40, vy = - 30, vz = 0\<rparr>"
    using focus_targets [OF s g0, of lib0 0]
    by (simp add: Let_def photos_exp1)
  from A B C s p show ?thesis
    by (simp only: photos_exp0 photos_exp1 simp_thms)
qed

section \<open>Smoothing\<close>

lemma mesh_smooth:
  "position (mesh (smooth L st p)) = lerp (position (mesh p)) (targetPosition p) 0.05"
  "scale (mesh (smooth L st p)) = lerp (scale (mesh p)) (targetScale p) 0.05"
  by (simp_all add: smooth_def Let_def quaternion_slerp_def)

lemma lerp_offset:
  "vx (lerp a v alpha) - vx v = (1 - alpha) * (vx a - vx v)"
  "vy (lerp a v alpha) - vy v = (1 - alpha) * (vy a - vy v)"
  "vz (lerp a v alpha) - vz v = (1 - alpha) * (vz a - vz v)"
  by (simp_all add: lerp_def algebra_simps)

lemma vdist_lerp:
  assumes "alpha \<le> 1"
  shows "vdist (lerp a v alpha) v = (1 - alpha) * vdist a v"
proof -
  have "(vx (lerp a v alpha) - vx v)\<^sup>2 + (vy (lerp a v alpha) - vy v)\<^sup>2 +
        (vz (lerp a v alpha) - vz v)\<^sup>2 =
        (1 - alpha)\<^sup>2 * ((vx a - vx v)\<^sup>2 + (vy a - vy v)\<^sup>2 + (vz a - vz v)\<^sup>2)"
    unfolding lerp_offset by (simp add: power_mult_distrib distrib_left)
  then show ?thesis
    using assms by (simp add: vdist_def real_sqrt_mult)
qed

lemma vdist_zero_iff: "vdist a b = 0 \<longleftrightarrow> a = b"
proof
  assume "vdist a b = 0"
  then have "(vx a - vx b)\<^sup>2 + (vy a - vy b)\<^sup>2 + (vz a - vz b)\<^sup>2 = 0"
    by (simp add: vdist_def)
  then have "vx a = vx b \<and> vy a = vy b \<and> vz a = vz b"
    by (simp add: sum_power2_eq_zero_iff add_nonneg_eq_0_iff)
  then show "a = b" by simp
next
  assume "a = b"
  then show "vdist a b = 0" by (simp add: vdist_def)
qed

lemma targets_funpow_smooth:
  "targetPosition ((smooth L st ^^ n) p) = targetPosition p"
  "targetScale ((smooth L st ^^ n) p) = targetScale p"
  by (induction n) simp_all

lemma position_funpow_smooth:
  "vx (position (mesh ((smooth L st ^^ n) p))) - vx (targetPosition p) =
     0.95 ^ n * (vx (position (mesh p)) - vx (targetPosition p))"
  "vy (position (mesh ((smooth L st ^^ n) p))) - vy (targetPosition p) =
     0.95 ^ n * (vy (position (mesh p)) - vy (targetPosition p))"
  "vz (position (mesh ((smooth L st ^^ n) p))) - vz (targetPosition p) =
     0.95 ^ n * (vz (position (mesh p)) - vz (targetPosition p))"
  by (induction n) (simp_all add: mesh_smooth targets_funpow_smooth lerp_offset)

lemma scale_funpow_smooth:
  "vx (scale (mesh ((smooth L st ^^ n) p))) - vx (targetScale p) =
     0.95 ^ n * (vx (scale (mesh p)) - vx (targetScale p))"
  "vy (scale (mesh ((smooth L st ^^ n) p))) - vy (targetScale p) =
     0.95 ^ n * (vy (scale (mesh p)) - vy (targetScale p))"
  "vz (scale (mesh ((smooth L st ^^ n) p))) - vz (targetScale p) =
     0.95 ^ n * (vz (scale (mesh p)) - vz (targetScale p))"
  by (induction n) (simp_all add: mesh_smooth targets_funpow_smooth lerp_offset)

lemma vdist_funpow_smooth:
  "vdist (position (mesh ((smooth L st ^^ n) p))) (targetPosition p) =
     0.95 ^ n * vdist (position (mesh p)) (targetPosition p)"
  "vdist (scale (mesh ((smooth L st ^^ n) p))) (targetScale p) =
     0.95 ^ n * vdist (scale (mesh p)) (targetScale p)"
  by (induction n) (simp_all add: mesh_smooth targets_funpow_smooth vdist_lerp)

lemma geometric_to_zero: "(\<lambda>n. 0.95 ^ n * (d::real)) \<longlonglongrightarrow> 0"
proof -
  have "(\<lambda>n. (0.95::real) ^ n) \<longlonglongrightarrow> 0"
    by (rule LIMSEQ_realpow_zero) simp_all
  then show ?thesis by (rule tendsto_mult_left_zero)
qed

text \<open>
  Claim C4. Applying the smoother \<open>n\<close> times to an ORNAMENT or PHOTO particle leaves its
  targets as they are and multiplies the distance between current and target position,
  and between current and target scale, by \<open>0.95 ^ n\<close>: each tick leaves exactly 0.95 of
  the remaining distance, on every coordinate with the same sign (no overshoot). From a
  start different from the target the distance strictly decreases at every tick and the
  target is never reached, and the distance tends to 0.
\<close>

theorem smoothing_contracts:
  "targetPosition ((smooth L st ^^ n) p) = targetPosition p \<and>
   targetScale ((smooth L st ^^ n) p) = targetScale p \<and>
   vdist (position (mesh ((smooth L st ^^ n) p))) (targetPosition p) =
     0.95 ^ n * vdist (position (mesh p)) (targetPosition p) \<and>
   vdist (scale (mesh ((smooth L st ^^ n) p))) (targetScale p) =
     0.95 ^ n * vdist (scale (mesh p)) (targetScale p) \<and>
   vx (position (mesh ((smooth L st ^^ n) p))) - vx (targetPosition p) =
     0.95 ^ n * (vx (position (mesh p)) - vx (targetPosition p)) \<and>
   vy (position (mesh ((smooth L st ^^ n) p))) - vy (targetPosition p) =
     0.95 ^ n * (vy (position (mesh p)) - vy (targetPosition p)) \<and>
   vz (position (mesh ((smooth L st ^^ n) p))) - vz (targetPosition p) =
     0.95 ^ n * (vz (position (mesh p)) - vz (targetPosition p)) \<and>
   vx (scale (mesh ((smooth L st ^^ n) p))) - vx (targetScale p) =
     0.95 ^ n * (vx (scale (mesh p)) - vx (targetScale p)) \<and>
   vy (scale (mesh ((smooth L st ^^ n) p))) - vy (targetScale p) =
     0.95 ^ n * (vy (scale (mesh p)) - vy (targetScale p)) \<and>
   vz (scale (mesh ((smooth L st ^^ n) p))) - vz (targetScale p) =
     0.95 ^ n * (vz (scale (mesh p)) - vz (targetScale p)) \<and>
   (position (mesh p) \<noteq> targetPosition p \<longrightarrow>
      position (mesh ((smooth L st ^^ n) p)) \<noteq> targetPosition p \<and>
      vdist (position (mesh ((smooth L st ^^ Suc n) p))) (targetPosition p)
        < vdist (position (mesh ((smooth L st ^^ n) p))) (targetPosition p)) \<and>
   (scale (mesh p) \<noteq> targetScale p \<longrightarrow>
      scale (mesh ((smooth L st ^^ n) p)) \<noteq> targetScale p \<and>
      vdist (scale (mesh ((smooth L st ^^ Suc n) p))) (targetScale p)
        < vdist (scale (mesh ((smooth L st ^^ n) p))) (targetScale p)) \<and>
   (\<lambda>k. vdist (position (mesh ((smooth L st ^^ k) p))) (targetPosition p)) \<longlonglongrightarrow> 0 \<and>
   (\<lambda>k. vdist (scale (mesh ((smooth L st ^^ k) p))) (targetScale p)) \<longlonglongrightarrow> 0"
proof -
  have pos: "position (mesh ((smooth L st ^^ n) p)) \<noteq> targetPosition p \<and>
      vdist (position (mesh ((smooth L st ^^ Suc n) p))) (targetPosition p)
        < vdist (position (mesh ((smooth L st ^^ n) p))) (targetPosition p)"
    if "position (mesh p) \<noteq> targetPosition p"
  proof -
    from that have "vdist (position (mesh p)) (targetPosition p) \<noteq> 0"
      by (simp add: vdist_zero_iff)
    moreover have "0 \<le> vdist (position (mesh p)) (targetPosition p)"
      by (simp add: vdist_def)
    ultimately have d: "0 < vdist (position (mesh p)) (targetPosition p)" by simp
    then have "vdist (position (mesh ((smooth L st ^^ n) p))) (targetPosition p) \<noteq> 0"
      unfolding vdist_funpow_smooth by simp
    then have "position (mesh ((smooth L st ^^ n) p)) \<noteq> targetPosition p"
      by (simp add: vdist_zero_iff)
    moreover from d
    have "0.95 ^ Suc n * vdist (position (mesh p)) (targetPosition p)
          < 0.95 ^ n * vdist (position (mesh p)) (targetPosition p)"
      by simp
    ultimately show ?thesis unfolding vdist_funpow_smooth by blast
  qed
  have sc: "scale (mesh ((smooth L st ^^ n) p)) \<noteq> targetScale p \<and>
      vdist (scale (mesh ((smooth L st ^^ Suc n) p))) (targetScale p)
        < vdist (scale (mesh ((smooth L st ^^ n) p))) (targetScale p)"
    if "scale (mesh p) \<noteq> targetScale p"
  proof -
    from that have "vdist (scale (mesh p)) (targetScale p) \<noteq> 0"
      by (simp add: vdist_zero_iff)
    moreover have "0 \<le> vdist (scale (mesh p)) (targetScale p)"
      by (simp add: vdist_def)
    ultimately have d: "0 < vdist (scale (mesh p)) (targetScale p)" by simp
    then have "vdist (scale (mesh ((smooth L st ^^ n) p))) (targetScale p) \<noteq> 0"
      unfolding vdist_funpow_smooth by simp
    then have "scale (mesh ((smooth L st ^^ n) p)) \<noteq> targetScale p"
      by (simp add: vdist_zero_iff)
    moreover from d
    have "0.95 ^ Suc n * vdist (scale (mesh p)) (targetScale p)
          < 0.95 ^ n * vdist (scale (mesh p)) (targetScale p)"
      by simp
    ultimately show ?thesis unfolding vdist_funpow_smooth by blast
  qed
  have lim: "(\<lambda>k. vdist (position (mesh ((smooth L st ^^ k) p))) (targetPosition p)) \<longlonglongrightarrow> 0"
    "(\<lambda>k. vdist (scale (mesh ((smooth L st ^^ k) p))) (targetScale p)) \<longlonglongrightarrow> 0"
    unfolding vdist_funpow_smooth by (rule geometric_to_zero)+
  from pos sc lim show ?thesis
    using targets_funpow_smooth [where L = L and st = st and n = n and p = p] vdist_funpow_smooth [where L = L and st = st and n = n and p = p]
      position_funpow_smooth [where L = L and st = st and n = n and p = p] scale_funpow_smooth [where L = L and st = st and n = n and p = p]
    by blast
qed

theorem smoothing_contracts_witness:
  "position (mesh target0) \<noteq> targetPosition target0 \<and>
   scale (mesh target0) \<noteq> targetScale target0 \<and>
   vdist (position (mesh target0)) (targetPosition target0) = 20 \<and>
   vdist (position (mesh ((smooth lib0 state0 ^^ 2) target0))) (targetPosition target0) = 18.05 \<and>
   position (mesh ((smooth lib0 state0 ^^ 2) target0)) \<noteq> targetPosition target0 \<and>
   vdist (position (mesh ((smooth lib0 state0 ^^ Suc 2) target0))) (targetPosition target0)
     < vdist (position (mesh ((smooth lib0 state0 ^^ 2) target0))) (targetPosition target0)"
proof -
  have h: "position (mesh target0) \<noteq> targetPosition target0"
    "scale (mesh target0) \<noteq> targetScale target0"
    by (simp_all add: target0_def ornament0_def mesh0_def vset_def)
  have d: "vdist (position (mesh target0)) (targetPosition target0) = 20"
    by (simp add: vdist_def target0_def ornament0_def mesh0_def vset_def)
  from smoothing_contracts [where L = lib0 and st = state0 and n = 2 and p = target0] h d show ?thesis
    by (simp add: power2_eq_square)
qed

section \<open>Several ticks in one mode\<close>

lemma nth_fold_update:
  "i < length (particles e) \<Longrightarrow>
   particles (fold (update L st) ts e) ! i =
     fold (\<lambda>time. update_particle L st time (photos (particles e))
                   (activePhoto st (photos (particles e))) i) ts (particles e ! i)"
proof (induction ts arbitrary: e)
  case Nil
  then show ?case by simp
next
  case (Cons t ts)
  from Cons.prems have "i < length (particles (update L st t e))" by simp
  from Cons.IH [OF this] Cons.prems show ?case
    by (simp add: nth_update)
qed

lemma type_fold_update_particle [simp]:
  "type (fold (\<lambda>time. update_particle L st time ph active i) ts p) = type p"
  by (induction ts arbitrary: p) simp_all

lemma focus_stale_step:
  assumes "mode st = FOCUS" and "type p \<noteq> DUST" and "active \<noteq> Some i"
  shows "targetRotation (update_particle L st time ph active i p) = targetRotation p"
    and "(rotation (mesh (update_particle L st time ph active i p)),
          quaternion (mesh (update_particle L st time ph active i p))) =
         slerp L (rotation (mesh p), quaternion (mesh p)) (setFromEuler L (targetRotation p)) 0.05"
proof -
  show r: "targetRotation (update_particle L st time ph active i p) = targetRotation p"
    using assms
    by (simp add: targets_update_particle focus_generic_target)
  from assms(1) have "\<not> (mode st = SCATTER \<and> type p = PARTICLE)" by simp
  from orientation_slerp [OF assms(2) this, of L time ph active i]
  show "(rotation (mesh (update_particle L st time ph active i p)),
          quaternion (mesh (update_particle L st time ph active i p))) =
         slerp L (rotation (mesh p), quaternion (mesh p)) (setFromEuler L (targetRotation p)) 0.05"
    by (simp only: r)
qed

lemma focus_stale_fold:
  assumes "mode st = FOCUS" and "type p \<noteq> DUST" and "active \<noteq> Some i"
  shows "targetRotation (fold (\<lambda>time. update_particle L st time ph active i) ts p) =
           targetRotation p \<and>
         (rotation (mesh (fold (\<lambda>time. update_particle L st time ph active i) ts p)),
          quaternion (mesh (fold (\<lambda>time. update_particle L st time ph active i) ts p))) =
         ((\<lambda>r. slerp L r (setFromEuler L (targetRotation p)) 0.05) ^^ length ts)
           (rotation (mesh p), quaternion (mesh p))"
  using assms(2)
proof (induction ts arbitrary: p)
  case Nil
  then show ?case by simp
next
  case (Cons t ts)
  let ?q = "update_particle L st t ph active i p"
  have ty: "type ?q \<noteq> DUST" using Cons.prems by simp
  note step = focus_stale_step [OF assms(1) Cons.prems assms(3), of L t ph]
  from Cons.IH [OF ty]
    funpow_swap1 [of "\<lambda>r. slerp L r (setFromEuler L (targetRotation p)) 0.05" "length ts"
      "(rotation (mesh p), quaternion (mesh p))"]
  show ?case
    by (simp add: step)
qed

section \<open>Convergence of the orientation\<close>

lemma qdot_cauchy_schwarz: "(qdot a b)\<^sup>2 \<le> qdot a a * qdot b b"
proof -
  have "qdot a a * qdot b b - (qdot a b)\<^sup>2 =
        (qx a * qy b - qy a * qx b)\<^sup>2 + (qx a * qz b - qz a * qx b)\<^sup>2 +
        (qx a * qw b - qw a * qx b)\<^sup>2 + (qy a * qz b - qz a * qy b)\<^sup>2 +
        (qy a * qw b - qw a * qy b)\<^sup>2 + (qz a * qw b - qw a * qz b)\<^sup>2"
    by (simp add: qdot_def power2_eq_square algebra_simps)
  also have "\<dots> \<ge> 0" by simp
  finally show ?thesis by simp
qed

lemma qdot_unit_bound:
  assumes "unitq a" and "unitq b"
  shows "\<bar>qdot a b\<bar> \<le> 1"
proof -
  from qdot_cauchy_schwarz [of a b] assms have "(qdot a b)\<^sup>2 \<le> 1"
    by (simp add: unitq_def)
  then show ?thesis by (simp only: abs_square_le_1)
qed

lemma angle_between_nonneg:
  assumes "unitq a" and "unitq b"
  shows "0 \<le> angle_between a b"
  using qdot_unit_bound [OF assms] by (simp add: angle_between_def arccos_lbound)

lemma slerp_poly_dot:
  fixes sa ca sb cb :: real
  assumes "sa\<^sup>2 + ca\<^sup>2 = 1"
  shows "sa * (ca * cb - sa * sb) + sb = ca * (sa * cb + ca * sb)"
proof -
  have "sa * (ca * cb - sa * sb) + sb - ca * (sa * cb + ca * sb) = sb * (1 - (sa\<^sup>2 + ca\<^sup>2))"
    by (simp add: power2_eq_square algebra_simps)
  with assms show ?thesis by simp
qed

lemma slerp_poly_norm:
  fixes sa ca sb cb :: real
  assumes "sa\<^sup>2 + ca\<^sup>2 = 1" and "sb\<^sup>2 + cb\<^sup>2 = 1"
  shows "sa\<^sup>2 + 2 * sa * sb * (ca * cb - sa * sb) + sb\<^sup>2 = (sa * cb + ca * sb)\<^sup>2"
proof -
  have "(sa * cb + ca * sb)\<^sup>2 - (sa\<^sup>2 + 2 * sa * sb * (ca * cb - sa * sb) + sb\<^sup>2) =
        - (sa\<^sup>2 * (1 - (sb\<^sup>2 + cb\<^sup>2))) - sb\<^sup>2 * (1 - (sa\<^sup>2 + ca\<^sup>2))"
    by (simp add: power2_eq_square algebra_simps)
  with assms show ?thesis by simp
qed

lemma slerp_trig_dot:
  fixes a b :: real
  shows "sin a * cos (a + b) + sin b = cos a * sin (a + b)"
  unfolding sin_add cos_add by (rule slerp_poly_dot) simp

lemma slerp_trig_norm:
  fixes a b :: real
  shows "(sin a)\<^sup>2 + 2 * sin a * sin b * cos (a + b) + (sin b)\<^sup>2 = (sin (a + b))\<^sup>2"
  unfolding sin_add cos_add by (rule slerp_poly_norm) simp_all

lemma qdot_qcomb_right:
  "qdot (qcomb A q B qb) qb = A * qdot q qb + B * qdot qb qb"
  by (simp add: qdot_def qcomb_def algebra_simps)

lemma qdot_qcomb_self:
  "qdot (qcomb A q B qb) (qcomb A q B qb) =
     A\<^sup>2 * qdot q q + 2 * A * B * qdot q qb + B\<^sup>2 * qdot qb qb"
  by (simp add: qdot_def qcomb_def power2_eq_square algebra_simps)

lemma euler_poly_unit:
  fixes s1 c1 s2 c2 s3 c3 :: real
  assumes "s1\<^sup>2 + c1\<^sup>2 = 1" and "s2\<^sup>2 + c2\<^sup>2 = 1" and "s3\<^sup>2 + c3\<^sup>2 = 1"
  shows "(s1 * c2 * c3 + c1 * s2 * s3)\<^sup>2 + (c1 * s2 * c3 - s1 * c2 * s3)\<^sup>2 +
         (c1 * c2 * s3 + s1 * s2 * c3)\<^sup>2 + (c1 * c2 * c3 - s1 * s2 * s3)\<^sup>2 = 1"
proof -
  have "(s1 * c2 * c3 + c1 * s2 * s3)\<^sup>2 + (c1 * s2 * c3 - s1 * c2 * s3)\<^sup>2 +
         (c1 * c2 * s3 + s1 * s2 * c3)\<^sup>2 + (c1 * c2 * c3 - s1 * s2 * s3)\<^sup>2 =
        (s1\<^sup>2 + c1\<^sup>2) * (s2\<^sup>2 + c2\<^sup>2) * (s3\<^sup>2 + c3\<^sup>2)"
    by (simp add: power2_eq_square algebra_simps)
  with assms show ?thesis by simp
qed

lemma unitq_setFromEuler_lib0: "unitq (setFromEuler lib0 e)"
  unfolding unitq_def qdot_def lib0_def
  using euler_poly_unit [OF sin_cos_squared_add sin_cos_squared_add sin_cos_squared_add,
      of "ex e / 2" "ey e / 2" "ez e / 2"]
  by (simp add: Let_def power2_eq_square)

lemma exact_slerp_unchanged:
  assumes "1 \<le> \<bar>qdot q qb\<bar>"
  shows "exact_slerp (e, q) qb t = (e, q)"
proof -
  have "(if qdot q qb < 0 then - 1 else 1) * qdot q qb = \<bar>qdot q qb\<bar>" by simp
  with assms show ?thesis by (simp add: exact_slerp_def Let_def)
qed

lemma exact_slerp_moved:
  assumes "\<bar>qdot q qb\<bar> < 1"
  shows "snd (exact_slerp (e, q) qb t) =
           qcomb (sin ((1 - t) * arccos \<bar>qdot q qb\<bar>) / sin (arccos \<bar>qdot q qb\<bar>)) q
             ((if qdot q qb < 0 then - 1 else 1) *
                (sin (t * arccos \<bar>qdot q qb\<bar>) / sin (arccos \<bar>qdot q qb\<bar>))) qb"
proof -
  have "(if qdot q qb < 0 then - 1 else 1) * qdot q qb = \<bar>qdot q qb\<bar>" by simp
  with assms show ?thesis by (simp add: exact_slerp_def Let_def)
qed

lemma exact_slerp_step:
  assumes uq: "unitq q" and ub: "unitq qb" and t0: "0 \<le> t" and t1: "t \<le> 1"
  shows "unitq (snd (exact_slerp (e, q) qb t))"
    and "angle_between (snd (exact_slerp (e, q) qb t)) qb = (1 - t) * angle_between q qb"
proof -
  let ?d = "qdot q qb"
  let ?c = "\<bar>?d\<bar>"
  let ?sg = "if ?d < 0 then - 1 else (1::real)"
  have c1: "?c \<le> 1" by (rule qdot_unit_bound [OF uq ub])
  have both: "unitq (snd (exact_slerp (e, q) qb t)) \<and>
        angle_between (snd (exact_slerp (e, q) qb t)) qb = (1 - t) * angle_between q qb"
  proof (cases "?c < 1")
    case False
    with c1 have c: "?c = 1" by simp
    then have "exact_slerp (e, q) qb t = (e, q)" by (simp add: exact_slerp_unchanged)
    moreover have "angle_between q qb = 0" by (simp add: angle_between_def c)
    ultimately show ?thesis using uq by simp
  next
    case True
    let ?th = "arccos ?c"
    let ?a = "(1 - t) * ?th"
    let ?b = "t * ?th"
    let ?A = "sin ?a / sin ?th"
    let ?B = "sin ?b / sin ?th"
    let ?q' = "qcomb ?A q (?sg * ?B) qb"
    have q': "snd (exact_slerp (e, q) qb t) = ?q'" by (rule exact_slerp_moved [OF True])
    have ab: "?a + ?b = ?th" by (simp add: algebra_simps)
    have cth: "cos ?th = ?c" using c1 by (simp add: cos_arccos)
    have th0: "0 \<le> ?th" using c1 by (simp add: arccos_lbound)
    have thpi2: "?th \<le> pi / 2" using c1 by (intro arccos_le_pi2) simp_all
    have "?th \<noteq> 0"
    proof
      assume "?th = 0"
      then have "cos ?th = 1" by simp
      with cth True show False by simp
    qed
    with th0 have thpos: "0 < ?th" by simp
    have "?th < pi" using thpi2 pi_gt_zero by linarith
    with thpos have spos: "0 < sin ?th" by (rule sin_gt_zero)
    have a0: "0 \<le> ?a" using t1 th0 by simp
    have "?a \<le> 1 * ?th" using t0 th0 by (intro mult_right_mono) simp_all
    then have "?a \<le> ?th" by simp
    with thpi2 have api2: "?a \<le> pi / 2" by linarith
    have cosa: "0 \<le> cos ?a" using a0 api2 by (simp add: cos_ge_zero)
    have sgsq: "?sg * ?sg = 1" by simp
    have sgd: "?sg * ?d = ?c" by simp
    have bb: "qdot qb qb = 1" and qq: "qdot q q = 1"
      using uq ub by (simp_all add: unitq_def)
    \<comment> \<open>the inner product with the target\<close>
    have "?sg * qdot ?q' qb = ?A * (?sg * ?d) + (?sg * ?sg) * ?B"
      by ((simp only: qdot_qcomb_right bb)?, (simp add: algebra_simps)?)
    also have "\<dots> = ?A * ?c + ?B" by ((simp only: sgd sgsq)?, simp?)
    also have "\<dots> = (sin ?a * cos (?a + ?b) + sin ?b) / sin ?th"
      by ((simp only: ab cth)?, (simp add: add_divide_distrib)?)
    also have "\<dots> = cos ?a * sin (?a + ?b) / sin ?th"
      by (simp only: slerp_trig_dot)
    also have "\<dots> = cos ?a" using spos by ((simp only: ab)?, simp?)
    finally have dot: "?sg * qdot ?q' qb = cos ?a" .
    have "\<bar>qdot ?q' qb\<bar> = \<bar>?sg * qdot ?q' qb\<bar>" by (simp add: abs_mult)
    with dot cosa have absdot: "\<bar>qdot ?q' qb\<bar> = cos ?a" by simp
    have "arccos (cos ?a) = ?a"
      using a0 api2 pi_gt_zero by (intro arccos_cos) linarith+
    with absdot have ang: "angle_between ?q' qb = (1 - t) * angle_between q qb"
      by (simp add: angle_between_def)
    \<comment> \<open>the norm\<close>
    have "qdot ?q' ?q' = ?A\<^sup>2 + 2 * ?A * ?B * (?sg * ?d) + (?sg * ?sg) * ?B\<^sup>2"
      by ((simp only: qdot_qcomb_self bb qq)?, (simp add: power2_eq_square algebra_simps)?)
    also have "\<dots> = ?A\<^sup>2 + 2 * ?A * ?B * ?c + ?B\<^sup>2" by ((simp only: sgd sgsq)?, simp?)
    also have "\<dots> = ((sin ?a)\<^sup>2 + 2 * sin ?a * sin ?b * cos (?a + ?b) + (sin ?b)\<^sup>2) / (sin ?th)\<^sup>2"
      by ((simp only: ab cth)?, (simp add: power_divide add_divide_distrib power2_eq_square)?)
    also have "\<dots> = (sin (?a + ?b))\<^sup>2 / (sin ?th)\<^sup>2"
      by (simp only: slerp_trig_norm)
    also have "\<dots> = 1" using spos by ((simp only: ab)?, simp?)
    finally have "unitq ?q'" by (simp add: unitq_def)
    with ang q' show ?thesis by simp
  qed
  from both show "unitq (snd (exact_slerp (e, q) qb t))" ..
  from both show "angle_between (snd (exact_slerp (e, q) qb t)) qb = (1 - t) * angle_between q qb" ..
qed

lemma lib1_contracts: "slerp_contracts lib1 0.95"
proof -
  have e: "\<And>e. unitq (setFromEuler lib1 e)"
    using unitq_setFromEuler_lib0 by (simp add: lib1_def)
  have s: "unitq (snd (slerp lib1 r qb 0.05)) \<and>
           angle_between (snd (slerp lib1 r qb 0.05)) qb \<le> 0.95 * angle_between (snd r) qb"
    if "unitq (snd r) \<and> unitq qb" for r qb
  proof -
    from that have u: "unitq (snd r)" "unitq qb" by simp_all
    have r: "slerp lib1 r qb 0.05 = exact_slerp (fst r, snd r) qb 0.05"
      by (simp add: lib1_def)
    from exact_slerp_step [OF u, of "0.05" "fst r"] show ?thesis
      unfolding r by simp
  qed
  from e s show ?thesis unfolding slerp_contracts_def by simp
qed

lemma focus_contract_step:
  assumes "slerp_contracts L c" and "mode st = FOCUS" and "type p \<noteq> DUST"
    and "active \<noteq> Some i" and "unitq (quaternion (mesh p))"
  shows "unitq (quaternion (mesh (update_particle L st time ph active i p)))"
    and "angle_between (quaternion (mesh (update_particle L st time ph active i p)))
           (setFromEuler L (targetRotation p))
         \<le> c * angle_between (quaternion (mesh p)) (setFromEuler L (targetRotation p))"
proof -
  let ?target = "setFromEuler L (targetRotation p)"
  let ?r = "(rotation (mesh p), quaternion (mesh p))"
  from focus_stale_step(2) [OF assms(2) assms(3) assms(4), of L time ph]
  have q: "quaternion (mesh (update_particle L st time ph active i p)) =
           snd (slerp L ?r ?target 0.05)"
    by (metis snd_conv)
  from assms(1) have "unitq ?target" by (simp add: slerp_contracts_def)
  with assms(5) have "unitq (snd ?r) \<and> unitq ?target" by simp
  with assms(1) have "unitq (snd (slerp L ?r ?target 0.05)) \<and>
      angle_between (snd (slerp L ?r ?target 0.05)) ?target \<le> c * angle_between (snd ?r) ?target"
    unfolding slerp_contracts_def by blast
  then show "unitq (quaternion (mesh (update_particle L st time ph active i p)))"
    and "angle_between (quaternion (mesh (update_particle L st time ph active i p))) ?target
         \<le> c * angle_between (quaternion (mesh p)) ?target"
    unfolding q by simp_all
qed

lemma focus_contract_fold:
  assumes "slerp_contracts L c" and "mode st = FOCUS" and "active \<noteq> Some i"
    and "type p \<noteq> DUST" and "unitq (quaternion (mesh p))"
  shows "unitq (quaternion (mesh (fold (\<lambda>time. update_particle L st time ph active i) ts p))) \<and>
         angle_between (quaternion (mesh (fold (\<lambda>time. update_particle L st time ph active i) ts p)))
           (setFromEuler L (targetRotation p))
         \<le> c ^ length ts * angle_between (quaternion (mesh p)) (setFromEuler L (targetRotation p))"
  using assms(4, 5)
proof (induction ts arbitrary: p)
  case Nil
  then show ?case by simp
next
  case (Cons t ts)
  let ?q = "update_particle L st t ph active i p"
  let ?f = "fold (\<lambda>time. update_particle L st time ph active i) ts ?q"
  let ?target = "setFromEuler L (targetRotation p)"
  have ty: "type ?q \<noteq> DUST" using Cons.prems by simp
  have tr: "targetRotation ?q = targetRotation p"
    by (rule focus_stale_step(1) [OF assms(2) Cons.prems(1) assms(3)])
  note step = focus_contract_step [OF assms(1) assms(2) Cons.prems(1) assms(3) Cons.prems(2),
      of t ph]
  from Cons.IH [OF ty step(1)]
  have u: "unitq (quaternion (mesh ?f))"
    and a: "angle_between (quaternion (mesh ?f)) ?target
            \<le> c ^ length ts * angle_between (quaternion (mesh ?q)) ?target"
    unfolding tr by simp_all
  from assms(1) have c0: "0 \<le> c" by (simp add: slerp_contracts_def)
  then have "0 \<le> c ^ length ts" by simp
  with step(2) have "c ^ length ts * angle_between (quaternion (mesh ?q)) ?target
        \<le> c ^ length ts * (c * angle_between (quaternion (mesh p)) ?target)"
    by (rule mult_left_mono)
  with a have "angle_between (quaternion (mesh ?f)) ?target
        \<le> c ^ length (t # ts) * angle_between (quaternion (mesh p)) ?target"
    by (simp add: mult.assoc mult.left_commute)
  with u show ?case by simp
qed

lemma geometric_bound_to_zero:
  fixes f :: "nat \<Rightarrow> real"
  assumes "0 \<le> c" and "c < 1" and "\<And>n. 0 \<le> f n" and "\<And>n. f n \<le> c ^ n * A"
  shows "f \<longlonglongrightarrow> 0"
proof -
  have "(\<lambda>n. c ^ n) \<longlonglongrightarrow> 0" using assms(1, 2) by (rule LIMSEQ_realpow_zero)
  then have lim: "(\<lambda>n. c ^ n * A) \<longlonglongrightarrow> 0" by (rule tendsto_mult_left_zero)
  show ?thesis
  proof (rule tendsto_sandwich)
    show "eventually (\<lambda>n. 0 \<le> f n) sequentially" using assms(3) by simp
    show "eventually (\<lambda>n. f n \<le> c ^ n * A) sequentially" using assms(4) by simp
    show "(\<lambda>n. 0::real) \<longlonglongrightarrow> 0" by simp
    show "(\<lambda>n. c ^ n * A) \<longlonglongrightarrow> 0" by (rule lim)
  qed
qed

text \<open>
  Claim C10. Over any number of ticks in FOCUS mode, a particle (ORNAMENT or PHOTO) that
  is not the active photo keeps the target orientation it had before, since the policy
  does not write it, and on each tick its orientation is moved by \<open>slerp\<close> with factor
  0.05 toward that unchanged target. Hence, with a library whose \<open>slerp\<close> contracts the
  angle to its target, the angle between the particle's orientation and the stale target
  shrinks geometrically, and along any unending sequence of FOCUS ticks the orientation
  converges to the stale target.
\<close>

theorem focus_keeps_stale_orientation_target:
  assumes "mode state = FOCUS" and "i < length (particles e)"
    and "type (particles e ! i) \<noteq> DUST"
    and "activePhoto state (photos (particles e)) \<noteq> Some i"
  shows "let p = particles e ! i;
             p' = particles (fold (update L state) ts e) ! i;
             target = setFromEuler L (targetRotation p)
         in targetRotation p' = targetRotation p \<and>
            (rotation (mesh p'), quaternion (mesh p')) =
              ((\<lambda>r. slerp L r target 0.05) ^^ length ts)
                (rotation (mesh p), quaternion (mesh p)) \<and>
            (slerp_contracts L c \<and> unitq (quaternion (mesh p)) \<longrightarrow>
               unitq (quaternion (mesh p')) \<and>
               angle_between (quaternion (mesh p')) target
                 \<le> c ^ length ts * angle_between (quaternion (mesh p)) target \<and>
               (\<lambda>n. angle_between
                       (quaternion (mesh (particles (fold (update L state) (map tm [0..<n]) e) ! i)))
                       target) \<longlonglongrightarrow> 0)"
proof -
  let ?p = "particles e ! i"
  let ?ph = "photos (particles e)"
  let ?a = "activePhoto state ?ph"
  let ?target = "setFromEuler L (targetRotation ?p)"
  let ?after = "\<lambda>ts. fold (\<lambda>time. update_particle L state time ?ph ?a i) ts ?p"
  note stale = focus_stale_fold [OF assms(1) assms(3) assms(4), of L ?ph ts]
  have conv: "unitq (quaternion (mesh (?after ts))) \<and>
      angle_between (quaternion (mesh (?after ts))) ?target
        \<le> c ^ length ts * angle_between (quaternion (mesh ?p)) ?target \<and>
      (\<lambda>n. angle_between (quaternion (mesh (?after (map tm [0..<n])))) ?target) \<longlonglongrightarrow> 0"
    if h: "slerp_contracts L c \<and> unitq (quaternion (mesh ?p))"
  proof -
    from h have sc: "slerp_contracts L c" and u: "unitq (quaternion (mesh ?p))" by simp_all
    note fold = focus_contract_fold [OF sc assms(1) assms(4) assms(3) u, of ?ph]
    from sc have c: "0 \<le> c" "c < 1" and ut: "unitq ?target"
      by (simp_all add: slerp_contracts_def)
    have "(\<lambda>n. angle_between (quaternion (mesh (?after (map tm [0..<n])))) ?target) \<longlonglongrightarrow> 0"
    proof (rule geometric_bound_to_zero [OF c])
      fix n
      from fold [of "map tm [0..<n]"]
      show "0 \<le> angle_between (quaternion (mesh (?after (map tm [0..<n])))) ?target"
        using ut by (simp add: angle_between_nonneg)
      from fold [of "map tm [0..<n]"]
      show "angle_between (quaternion (mesh (?after (map tm [0..<n])))) ?target
            \<le> c ^ n * angle_between (quaternion (mesh ?p)) ?target"
        by simp
    qed
    with fold [of ts] show ?thesis by simp
  qed
  from stale conv show ?thesis
    unfolding Let_def nth_fold_update [OF assms(2)] by blast
qed

lemma unitq_mesh0: "unitq (quaternion mesh0)"
  by (simp add: unitq_def qdot_def mesh0_def)

lemma angle_mesh0_yaw1:
  "angle_between (quaternion mesh0) (setFromEuler lib1 \<lparr>ex = 0, ey = 1, ez = 0\<rparr>) = 1"
proof -
  have d: "qdot (quaternion mesh0) (setFromEuler lib1 \<lparr>ex = 0, ey = 1, ez = 0\<rparr>) = cos (1 / 2)"
    by (simp add: qdot_def mesh0_def lib1_def lib0_def Let_def)
  have "(1::real) / 2 \<le> pi / 2" using pi_ge_two by simp
  then have "0 \<le> cos ((1::real) / 2)" by (intro cos_ge_zero) simp_all
  then have a: "\<bar>cos ((1::real) / 2)\<bar> = cos (1 / 2)" by simp
  have "arccos (cos ((1::real) / 2)) = 1 / 2"
    using pi_ge_two by (intro arccos_cos) simp_all
  then show ?thesis by (simp add: angle_between_def d a)
qed

lemma expT1_facts:
  "0 < length (particles expT1)"
  "type (particles expT1 ! 0) \<noteq> DUST"
  "activePhoto stateF (photos (particles expT1)) \<noteq> Some 0"
  "targetRotation (particles expT1 ! 0) = \<lparr>ex = 0, ey = 1, ez = 0\<rparr>"
  "unitq (quaternion (mesh (particles expT1 ! 0)))"
  "angle_between (quaternion (mesh (particles expT1 ! 0)))
     (setFromEuler lib1 \<lparr>ex = 0, ey = 1, ez = 0\<rparr>) = 0.95"
proof -
  let ?p = "update_particle lib1 state0 5 (photos (particles exp0))
              (activePhoto state0 (photos (particles exp0))) 0 ornament0"
  have p: "particles expT1 ! 0 = ?p"
    by (simp add: expT1_def nth_update exp0_nth)
  show "0 < length (particles expT1)" by (simp add: expT1_def exp0_nth)
  show "type (particles expT1 ! 0) \<noteq> DUST"
    by (simp add: p ornament0_def)
  show "activePhoto stateF (photos (particles expT1)) \<noteq> Some 0"
    by (simp add: expT1_def photos_exp0 activePhoto_def js_rem_def stateF_def)
  show t: "targetRotation (particles expT1 ! 0) = \<lparr>ex = 0, ey = 1, ez = 0\<rparr>"
    by (simp add: p targets_update_particle ornament0_def policy_def state0_def Let_def
        eset_def)
  have ty: "type ornament0 \<noteq> DUST" by (simp add: ornament0_def)
  have m: "\<not> (mode state0 = SCATTER \<and> type ornament0 = PARTICLE)" by (simp add: state0_def)
  from orientation_slerp [OF ty m, of lib1 5 "photos (particles exp0)"
      "activePhoto state0 (photos (particles exp0))" 0]
  have q: "quaternion (mesh (particles expT1 ! 0)) =
           snd (exact_slerp (rotation mesh0, quaternion mesh0)
                  (setFromEuler lib1 \<lparr>ex = 0, ey = 1, ez = 0\<rparr>) 0.05)"
    unfolding p [symmetric] t
    by (simp add: lib1_def ornament0_def) (metis snd_conv)
  have ut: "unitq (setFromEuler lib1 \<lparr>ex = 0, ey = 1, ez = 0\<rparr>)"
    using unitq_setFromEuler_lib0 by (simp add: lib1_def)
  note step = exact_slerp_step [OF unitq_mesh0 ut, of "0.05" "rotation mesh0"]
  from step(1) show "unitq (quaternion (mesh (particles expT1 ! 0)))"
    unfolding q by simp
  from step(2) show "angle_between (quaternion (mesh (particles expT1 ! 0)))
     (setFromEuler lib1 \<lparr>ex = 0, ey = 1, ez = 0\<rparr>) = 0.95"
    unfolding q by (simp add: angle_mesh0_yaw1)
qed

theorem focus_keeps_stale_orientation_target_witness:
  "mode stateF = FOCUS \<and> 0 < length (particles expT1) \<and> type (particles expT1 ! 0) \<noteq> DUST \<and>
   activePhoto stateF (photos (particles expT1)) \<noteq> Some 0 \<and>
   slerp_contracts lib1 0.95 \<and> unitq (quaternion (mesh (particles expT1 ! 0))) \<and>
   targetRotation (particles expT1 ! 0) = \<lparr>ex = 0, ey = 1, ez = 0\<rparr> \<and>
   targetRotation (particles (fold (update lib1 stateF) [6, 7] expT1) ! 0) =
     \<lparr>ex = 0, ey = 1, ez = 0\<rparr> \<and>
   (rotation (mesh (particles (fold (update lib1 stateF) [6, 7] expT1) ! 0)),
    quaternion (mesh (particles (fold (update lib1 stateF) [6, 7] expT1) ! 0))) =
     slerp lib1
       (slerp lib1 (rotation (mesh (particles expT1 ! 0)), quaternion (mesh (particles expT1 ! 0)))
          (setFromEuler lib1 \<lparr>ex = 0, ey = 1, ez = 0\<rparr>) 0.05)
       (setFromEuler lib1 \<lparr>ex = 0, ey = 1, ez = 0\<rparr>) 0.05 \<and>
   angle_between (quaternion (mesh (particles expT1 ! 0)))
     (setFromEuler lib1 \<lparr>ex = 0, ey = 1, ez = 0\<rparr>) = 0.95 \<and>
   angle_between (quaternion (mesh (particles (fold (update lib1 stateF) [6, 7] expT1) ! 0)))
     (setFromEuler lib1 \<lparr>ex = 0, ey = 1, ez = 0\<rparr>) \<le> 0.95 ^ 2 * 0.95 \<and>
   (\<lambda>n. angle_between
           (quaternion (mesh (particles
              (fold (update lib1 stateF) (map (\<lambda>k. 6 + real k / 60) [0..<n]) expT1) ! 0)))
           (setFromEuler lib1 \<lparr>ex = 0, ey = 1, ez = 0\<rparr>)) \<longlonglongrightarrow> 0"
proof -
  have m: "mode stateF = FOCUS" by (simp add: stateF_def)
  note f = expT1_facts
  note c = lib1_contracts
  have len: "length [6::real, 7] = 2" by simp
  from focus_keeps_stale_orientation_target [OF m f(1) f(2) f(3),
      where L = lib1 and ts = "[6, 7]" and c = "0.95" and tm = "\<lambda>k. 6 + real k / 60"]
  have "targetRotation (particles (fold (update lib1 stateF) [6, 7] expT1) ! 0) =
          \<lparr>ex = 0, ey = 1, ez = 0\<rparr>"
    and "angle_between (quaternion (mesh (particles (fold (update lib1 stateF) [6, 7] expT1) ! 0)))
          (setFromEuler lib1 \<lparr>ex = 0, ey = 1, ez = 0\<rparr>) \<le> 0.95 ^ 2 * 0.95"
    and "(\<lambda>n. angle_between
           (quaternion (mesh (particles
              (fold (update lib1 stateF) (map (\<lambda>k. 6 + real k / 60) [0..<n]) expT1) ! 0)))
           (setFromEuler lib1 \<lparr>ex = 0, ey = 1, ez = 0\<rparr>)) \<longlonglongrightarrow> 0"
    using c f(5) unfolding Let_def f(4) f(6) len by blast+
  moreover
  from focus_keeps_stale_orientation_target [OF m f(1) f(2) f(3),
      where L = lib1 and ts = "[6, 7]" and c = "0.95" and tm = "\<lambda>k. 6 + real k / 60"]
  have "(rotation (mesh (particles (fold (update lib1 stateF) [6, 7] expT1) ! 0)),
    quaternion (mesh (particles (fold (update lib1 stateF) [6, 7] expT1) ! 0))) =
     slerp lib1
       (slerp lib1 (rotation (mesh (particles expT1 ! 0)), quaternion (mesh (particles expT1 ! 0)))
          (setFromEuler lib1 \<lparr>ex = 0, ey = 1, ez = 0\<rparr>) 0.05)
       (setFromEuler lib1 \<lparr>ex = 0, ey = 1, ez = 0\<rparr>) 0.05"
    unfolding Let_def f(4) len by (simp add: numeral_2_eq_2)
  ultimately show ?thesis using m f c by blast
qed

section \<open>Runs without a hand\<close>

lemma tick_no_hand:
  "no_hand inp \<Longrightarrow> tick L inp (st, e) = Inr (st, update L st (snd (snd inp)) e)"
  by (auto simp: tick_def no_hand_def processFrame_def)

lemma run_no_hand:
  "\<forall>inp\<in>set inps. no_hand inp \<Longrightarrow>
   run L inps (st, e) = Inr (st, fold (update L st) (map (\<lambda>inp. snd (snd inp)) inps) e)"
  by (induction inps arbitrary: e) (simp_all add: tick_no_hand)

lemma tree_step:
  assumes "mode st = TREE" and "type p = PARTICLE"
  shows "targetPosition (update_particle L st time ph active i p) =
           \<lparr>vx = 12 * (1 - real i / real PARTICLE_COUNT) *
                  cos (50 * (real i / real PARTICLE_COUNT) * pi + 0.2 * time),
            vy = real i / real PARTICLE_COUNT * 25 - 10,
            vz = 12 * (1 - real i / real PARTICLE_COUNT) *
                  sin (50 * (real i / real PARTICLE_COUNT) * pi + 0.2 * time)\<rparr>"
    and "vy (position (mesh (update_particle L st time ph active i p))) -
           (real i / real PARTICLE_COUNT * 25 - 10) =
         0.95 * (vy (position (mesh p)) - (real i / real PARTICLE_COUNT * 25 - 10))"
proof -
  from assms have d: "type p \<noteq> DUST" by simp
  from assms have u: "\<not> (mode st = SCATTER \<and> type p = PARTICLE)" by simp
  show t: "targetPosition (update_particle L st time ph active i p) =
           \<lparr>vx = 12 * (1 - real i / real PARTICLE_COUNT) *
                  cos (50 * (real i / real PARTICLE_COUNT) * pi + 0.2 * time),
            vy = real i / real PARTICLE_COUNT * 25 - 10,
            vz = 12 * (1 - real i / real PARTICLE_COUNT) *
                  sin (50 * (real i / real PARTICLE_COUNT) * pi + 0.2 * time)\<rparr>"
    using assms
    by (simp add: targets_update_particle [OF d] policy_def Let_def vset_def mult.commute
        mult.left_commute)
  have y: "vy (targetPosition (policy L st time ph active i p)) =
             real i / real PARTICLE_COUNT * 25 - 10"
    using t by (simp add: targets_update_particle [OF d])
  from lerp_offset(2) [of "position (mesh p)" "targetPosition (policy L st time ph active i p)"
      "0.05"]
  show "vy (position (mesh (update_particle L st time ph active i p))) -
           (real i / real PARTICLE_COUNT * 25 - 10) =
         0.95 * (vy (position (mesh p)) - (real i / real PARTICLE_COUNT * 25 - 10))"
    using d by (simp add: update_particle_def mesh_smooth mesh_policy_unspun [OF u] y)
qed

lemma tree_fold_height:
  assumes "mode st = TREE" and "type p = PARTICLE"
  shows "vy (position (mesh (fold (\<lambda>time. update_particle L st time ph active i) ts p))) -
           (real i / real PARTICLE_COUNT * 25 - 10) =
         0.95 ^ length ts * (vy (position (mesh p)) - (real i / real PARTICLE_COUNT * 25 - 10))"
  using assms(2)
proof (induction ts arbitrary: p)
  case Nil
  then show ?case by simp
next
  case (Cons t ts)
  have "type (update_particle L st t ph active i p) = PARTICLE"
    using Cons.prems by simp
  from Cons.IH [OF this] tree_step(2) [OF assms(1) Cons.prems, of L t ph active i]
  show ?case by simp
qed

lemma tree_fold_target:
  assumes "mode st = TREE" and "type p = PARTICLE" and "ts \<noteq> []"
  shows "targetPosition (fold (\<lambda>time. update_particle L st time ph active i) ts p) =
           \<lparr>vx = 12 * (1 - real i / real PARTICLE_COUNT) *
                  cos (50 * (real i / real PARTICLE_COUNT) * pi + 0.2 * last ts),
            vy = real i / real PARTICLE_COUNT * 25 - 10,
            vz = 12 * (1 - real i / real PARTICLE_COUNT) *
                  sin (50 * (real i / real PARTICLE_COUNT) * pi + 0.2 * last ts)\<rparr>"
  using assms(2, 3)
proof (induction ts arbitrary: p)
  case Nil
  then show ?case by simp
next
  case (Cons t ts)
  have ty: "type (update_particle L st t ph active i p) = PARTICLE"
    using Cons.prems by simp
  show ?case
  proof (cases "ts = []")
    case True
    with tree_step(1) [OF assms(1) Cons.prems(1), of L t ph active i] show ?thesis by simp
  next
    case False
    with Cons.IH [OF ty False] show ?thesis by simp
  qed
qed

text \<open>
  Claim C9, as the code has it. Starting in TREE mode, any positive number of ticks
  without a hand leaves the state, so the mode, as it was; after them the target position
  of each ORNAMENT particle is the point of the conical helix (with height
  \<open>t * 25 - 10\<close>) for its rank at the time of the last tick, while the smoothed position
  has only approached it: its vertical distance to the target is \<open>0.95 ^ n\<close> times the
  initial one after \<open>n\<close> ticks.
\<close>

theorem tree_run_without_hand:
  assumes "mode st = TREE" and "\<forall>inp\<in>set inps. no_hand inp" and "inps \<noteq> []"
    and "i < length (particles e)" and "type (particles e ! i) = PARTICLE"
  shows "\<exists>e'. run L inps (st, e) = Inr (st, e') \<and>
           (let t = real i / real PARTICLE_COUNT;
                radius = 12 * (1 - t);
                angle = 50 * t * pi + 0.2 * snd (snd (last inps));
                p' = particles e' ! i
            in targetPosition p' =
                 \<lparr>vx = radius * cos angle, vy = t * 25 - 10, vz = radius * sin angle\<rparr> \<and>
               vy (position (mesh p')) - (t * 25 - 10) =
                 0.95 ^ length inps * (vy (position (mesh (particles e ! i))) - (t * 25 - 10)))"
proof -
  let ?ts = "map (\<lambda>inp. snd (snd inp)) inps"
  have l: "last ?ts = snd (snd (last inps))"
    using assms(3) by (simp add: last_map)
  have n: "?ts \<noteq> []" using assms(3) by simp
  show ?thesis
    unfolding run_no_hand [OF assms(2)] Let_def
    using tree_fold_target [OF assms(1) assms(5) n, of L "photos (particles e)"
        "activePhoto st (photos (particles e))" i]
      tree_fold_height [OF assms(1) assms(5), of L "photos (particles e)"
        "activePhoto st (photos (particles e))" i ?ts]
    by (simp add: nth_fold_update [OF assms(4)] l)
qed

lemma frames100_facts:
  "\<forall>inp\<in>set frames100. no_hand inp" "frames100 \<noteq> []" "length frames100 = 100"
  "map (\<lambda>inp. snd (snd inp)) frames100 = times100"
  by (simp_all add: frames100_def times100_def no_hand_def comp_def)

lemma pow95_pos: "0 < (0.95::real) ^ n"
  by simp

theorem tree_run_without_hand_witness:
  "mode state0 = TREE \<and> list_all no_hand frames100 \<and> frames100 \<noteq> [] \<and>
   0 < length (particles exp0) \<and> type (particles exp0 ! 0) = PARTICLE \<and>
   (\<exists>e'. run lib0 frames100 (state0, exp0) = Inr (state0, e') \<and>
      vy (targetPosition (particles e' ! 0)) = - 10 \<and>
      vy (position (mesh (particles e' ! 0))) = - 10 + 10 * 0.95 ^ 100)"
proof -
  have h: "mode state0 = TREE" "0 < length (particles exp0)"
    "type (particles exp0 ! 0) = PARTICLE" "vy (position (mesh (particles exp0 ! 0))) = 0"
    by (simp_all add: state0_def exp0_nth ornament0_def mesh0_def vset_def)
  from tree_run_without_hand [OF h(1) frames100_facts(1) frames100_facts(2) h(2) h(3), of lib0]
  obtain e' where "run lib0 frames100 (state0, exp0) = Inr (state0, e')"
    and "vy (targetPosition (particles e' ! 0)) = - 10"
    and "vy (position (mesh (particles e' ! 0))) = - 10 + 10 * 0.95 ^ 100"
    by (auto simp: Let_def h(4) frames100_facts(3))
  moreover have "list_all no_hand frames100"
    using frames100_facts(1) by (simp add: list_all_iff)
  ultimately show ?thesis using h frames100_facts(2) by blast
qed

text \<open>
  Claim C9 as stated fails: after 100 ticks without a hand the ornament of rank 0, which
  starts at the origin, is at a height above \<open>- 10\<close>, whereas every point of the helix of
  rank 0 has height \<open>- 10\<close> (and \<open>- 12.5\<close> with the offset \<open>height / 2\<close>); its position
  differs from its target.
\<close>

theorem smoothed_position_off_helix_counterexample:
  "run lib0 frames100 (state0, exp0) = Inr (state0, fold (update lib0 state0) times100 exp0) \<and>
   vy (position (mesh (particles (fold (update lib0 state0) times100 exp0) ! 0)))
     \<noteq> real 0 / real PARTICLE_COUNT * 25 - 25 / 2 \<and>
   vy (position (mesh (particles (fold (update lib0 state0) times100 exp0) ! 0)))
     \<noteq> real 0 / real PARTICLE_COUNT * 25 - 10 \<and>
   position (mesh (particles (fold (update lib0 state0) times100 exp0) ! 0))
     \<noteq> targetPosition (particles (fold (update lib0 state0) times100 exp0) ! 0)"
proof -
  have h: "mode state0 = TREE" "0 < length (particles exp0)"
    "type (particles exp0 ! 0) = PARTICLE" "vy (position (mesh (particles exp0 ! 0))) = 0"
    by (simp_all add: state0_def exp0_nth ornament0_def mesh0_def vset_def)
  let ?p = "particles (fold (update lib0 state0) times100 exp0) ! 0"
  have r: "run lib0 frames100 (state0, exp0) =
           Inr (state0, fold (update lib0 state0) times100 exp0)"
    using run_no_hand [OF frames100_facts(1), of lib0 state0 exp0]
    by (simp only: frames100_facts(4))
  have y: "vy (position (mesh ?p)) = - 10 + 10 * 0.95 ^ length times100"
    using tree_fold_height [OF h(1) h(3), of lib0 "photos (particles exp0)"
        "activePhoto state0 (photos (particles exp0))" 0 times100]
    by (simp add: nth_fold_update [OF h(2)] h(4))
  have t: "vy (targetPosition ?p) = - 10"
    using tree_fold_target [OF h(1) h(3), of times100 lib0 "photos (particles exp0)"
        "activePhoto state0 (photos (particles exp0))" 0]
    by (simp add: nth_fold_update [OF h(2)] times100_def)
  from pow95_pos [of "length times100"] y
  have g: "vy (position (mesh ?p)) > - 10" by simp
  then have "vy (position (mesh ?p)) \<noteq> vy (targetPosition ?p)" using t by simp
  then have "position (mesh ?p) \<noteq> targetPosition ?p" by auto
  with r g show ?thesis by simp
qed

end
